theory Spec2Isabelle
  imports Complex_Main "HOL-Library.AList" "HOL-Library.Word"
begin

section \<open>JavaScript values\<close>

text \<open>
  A JavaScript number is a double. The model keeps the three special values apart from
  the finite ones and computes on finite numbers exactly (as reals): rounding of doubles
  and the sign of zero are not modelled. Comparisons with \<open>NaN\<close> are false, as in
  JavaScript.
\<close>

datatype jsnum = NaN | NegInf | Fin real | PosInf

fun js_lt :: "jsnum \<Rightarrow> jsnum \<Rightarrow> bool" where
  "js_lt (Fin a) (Fin b) = (a < b)"
| "js_lt NaN b = False"
| "js_lt a NaN = False"
| "js_lt a NegInf = False"
| "js_lt PosInf b = False"
| "js_lt NegInf b = True"
| "js_lt (Fin a) PosInf = True"

definition js_gt :: "jsnum \<Rightarrow> jsnum \<Rightarrow> bool" where
  "js_gt a b = js_lt b a"

definition js_le :: "jsnum \<Rightarrow> jsnum \<Rightarrow> bool" where
  "js_le a b = (a \<noteq> NaN \<and> b \<noteq> NaN \<and> \<not> js_lt b a)"

text \<open>\<open>Math.min\<close> and \<open>Math.max\<close> of two arguments, and binary minus.\<close>

definition Math_min :: "jsnum \<Rightarrow> jsnum \<Rightarrow> jsnum" where
  "Math_min a b = (if a = NaN \<or> b = NaN then NaN else if js_lt b a then b else a)"

definition Math_max :: "jsnum \<Rightarrow> jsnum \<Rightarrow> jsnum" where
  "Math_max a b = (if a = NaN \<or> b = NaN then NaN else if js_lt a b then b else a)"

fun js_minus :: "jsnum \<Rightarrow> jsnum \<Rightarrow> jsnum" where
  "js_minus (Fin a) (Fin b) = Fin (a - b)"
| "js_minus NaN b = NaN"
| "js_minus a NaN = NaN"
| "js_minus PosInf PosInf = NaN"
| "js_minus NegInf NegInf = NaN"
| "js_minus PosInf b = PosInf"
| "js_minus NegInf b = NegInf"
| "js_minus (Fin a) PosInf = NegInf"
| "js_minus (Fin a) NegInf = PosInf"

text \<open>\<open>ToUint32\<close>, the conversion that \<open>new Uint32Array(values)\<close> applies to each value.\<close>

definition ToUint32 :: "jsnum \<Rightarrow> 32 word" where
  "ToUint32 v = (case v of
       Fin r \<Rightarrow> word_of_int (if 0 \<le> r then \<lfloor>r\<rfloor> else \<lceil>r\<rceil>)
     | _ \<Rightarrow> 0)"

text \<open>
  Every \<open>throw\<close> of the source, and every \<open>TypeError\<close> the runtime raises when the
  source reads a property of \<open>undefined\<close> or calls \<open>undefined\<close>, is an error value.
  \<open>JsError\<close> is the plain \<open>new Error(msg)\<close> of the decoder.
\<close>

datatype error =
    DeveloperError string
  | RuntimeError string
  | TypeError string
  | JsError string

text \<open>
  The passes mutate the asset in place and do not roll back: an outcome carries the
  state as the call left it, also when it threw.
\<close>

datatype 's outcome = Threw error 's | Returned 's

fun isThrew :: "'s outcome \<Rightarrow> bool" where
  "isThrew (Threw e s) = True"
| "isThrew (Returned s) = False"

fun stateOf :: "'s outcome \<Rightarrow> 's" where
  "stateOf (Threw e s) = s"
| "stateOf (Returned s) = s"

text \<open>\<open>defaultValue(a, b)\<close> and \<open>defined(a)\<close> of Cesium, with \<open>None\<close> for \<open>undefined\<close>.\<close>

definition defaultValue :: "'a option \<Rightarrow> 'a \<Rightarrow> 'a" where
  "defaultValue a b = (case a of None \<Rightarrow> b | Some v \<Rightarrow> v)"

definition defined :: "'a option \<Rightarrow> bool" where
  "defined a = (a \<noteq> None)"

text \<open>Reading \<open>xs[i]\<close>: \<open>undefined\<close> out of range.\<close>

definition lookup :: "'a list \<Rightarrow> nat \<Rightarrow> 'a option" where
  "lookup xs i = (if i < length xs then Some (xs ! i) else None)"

text \<open>
  Modelled from the spec: \<open>addToArray\<close> is not under src/. The spec (4.6) says that
  the rewriter appends a new element; the callers use the result as the new element's id,
  which is its position.
\<close>

definition addToArray :: "'a list \<Rightarrow> 'a \<Rightarrow> 'a list \<times> nat" where
  "addToArray array element = (array @ [element], length array)"

section \<open>The asset\<close>

type_synonym byte = "8 word"

record accessor =
  acc_bufferView :: "nat option"
  acc_byteOffset :: "nat option"
  acc_componentType :: nat
  acc_count :: nat
  acc_max :: "jsnum list option"
  acc_min :: "jsnum list option"
  acc_type :: string
  acc_others :: "(string \<times> string) list"

record bufferView =
  bv_buffer :: nat
  bv_byteOffset :: "nat option"
  bv_byteLength :: nat

record buffer =
  buf_byteLength :: nat
  buf_source :: "byte list option"

record dracoExtension =
  ext_bufferView :: nat
  ext_attributes :: "(string \<times> int) list"

record primExtensions =
  KHR_draco_mesh_compression :: "dracoExtension option"
  otherExtensions :: "string list"

record primitive =
  prim_attributes :: "(string \<times> nat) list"
  prim_indices :: "nat option"
  prim_mode :: "nat option"
  prim_targets :: "(string \<times> nat) list list option"
  prim_extensions :: "primExtensions option"

record mesh =
  mesh_primitives :: "primitive list"

record sampler =
  smp_input :: "nat option"
  smp_output :: "nat option"
  smp_interpolation :: "string option"

record animation =
  anim_samplers :: "sampler list"

record compressedAnimation =
  ca_input :: nat
  ca_outputs :: "nat list"
  ca_attributesId :: "int list"
  ca_bufferView :: "nat option"

record gltf =
  accessors :: "accessor list"
  bufferViews :: "bufferView list"
  buffers :: "buffer list"
  meshes :: "mesh list"
  animations :: "animation list"
  extensionsUsed :: "string list"
  extensionsRequired :: "string list"
  Draco_animation_compression :: "compressedAnimation list option"

text \<open>
  A primitive is an object inside \<open>gltf.meshes[mi].primitives[pi]\<close>; the source holds a
  reference to it and mutates it. The model names it by its place \<open>(mi, pi)\<close>. The asset
  is a tree, as a parsed JSON document is: no object is shared between two places.
\<close>

type_synonym loc = "nat \<times> nat"

definition getPrimitive :: "gltf \<Rightarrow> loc \<Rightarrow> primitive option" where
  "getPrimitive g l = (case lookup (meshes g) (fst l) of
       None \<Rightarrow> None
     | Some m \<Rightarrow> lookup (mesh_primitives m) (snd l))"

definition setPrimitive :: "gltf \<Rightarrow> loc \<Rightarrow> primitive \<Rightarrow> gltf" where
  "setPrimitive g l p = (case lookup (meshes g) (fst l) of
       None \<Rightarrow> g
     | Some m \<Rightarrow> g\<lparr>meshes := (meshes g)[fst l := m\<lparr>mesh_primitives := (mesh_primitives m)[snd l := p]\<rparr>]\<rparr>)"

definition updPrimitive :: "gltf \<Rightarrow> loc \<Rightarrow> (primitive \<Rightarrow> primitive) \<Rightarrow> gltf" where
  "updPrimitive g l f = (case getPrimitive g l of None \<Rightarrow> g | Some p \<Rightarrow> setPrimitive g l (f p))"

text \<open>
  Modelled from the spec: \<open>ForEach\<close> is not under src/. The spec (4.1) says that a pass
  walks meshes in order, then primitives within a mesh in order, and that an error in
  any primitive aborts the whole pass. \<open>forEach\<close> runs a handler over the places of a
  sequence, in order, and stops at the first throw.
\<close>

fun forEach :: "('a \<Rightarrow> 's \<Rightarrow> 's outcome) \<Rightarrow> 'a list \<Rightarrow> 's \<Rightarrow> 's outcome" where
  "forEach handler [] s = Returned s"
| "forEach handler (x # xs) s = (case handler x s of
       Threw e s' \<Rightarrow> Threw e s'
     | Returned s' \<Rightarrow> forEach handler xs s')"

section \<open>The type dispatch\<close>

text \<open>The component type codes of \<open>WebGLConstants\<close>, and the draw mode of triangles.\<close>

definition BYTE :: nat where "BYTE = 5120"
definition UNSIGNED_BYTE :: nat where "UNSIGNED_BYTE = 5121"
definition SHORT :: nat where "SHORT = 5122"
definition UNSIGNED_SHORT :: nat where "UNSIGNED_SHORT = 5123"
definition INT_type :: nat where "INT_type = 5124"
definition UNSIGNED_INT :: nat where "UNSIGNED_INT = 5125"
definition FLOAT :: nat where "FLOAT = 5126"
definition TRIANGLES :: nat where "TRIANGLES = 4"

text \<open>
  \<open>getAddAttributeFunctionName\<close> (compressDracoMeshes.js) is a \<open>switch\<close> with seven cases
  and no default: for any other component type the function ends without a \<open>return\<close>,
  so its result is \<open>undefined\<close> (\<open>None\<close>). It has no \<open>throw\<close>.
\<close>

definition getAddAttributeFunctionName :: "nat \<Rightarrow> string option" where
  "getAddAttributeFunctionName componentType =
     (if componentType = UNSIGNED_BYTE then Some ''AddUInt8Attribute''
      else if componentType = BYTE then Some ''AddInt8Attribute''
      else if componentType = UNSIGNED_SHORT then Some ''AddUInt16Attribute''
      else if componentType = SHORT then Some ''AddInt16Attribute''
      else if componentType = UNSIGNED_INT then Some ''AddUInt32Attribute''
      else if componentType = INT_type then Some ''AddInt32Attribute''
      else if componentType = FLOAT then Some ''AddFloatAttribute''
      else None)"

text \<open>
  \<open>getAttributeBuffer\<close> (the decompress pass) dispatches on the codec's data type code
  \<open>attribute.data_type()\<close> in an \<open>if\<close>/\<open>else if\<close> chain that ends in a plain \<open>else\<close>. Each
  branch picks the codec array, the codec getter and the typed array that receives the
  values. \<open>attributeDispatch\<close> is that chain; it has no \<open>throw\<close>.
\<close>

datatype arrayKind =
    Int8Array | Uint8Array | Int16Array | Uint16Array | Uint32Array | Float32Array | Float64Array

datatype getter =
    GetAttributeInt8ForAllPoints
  | GetAttributeUInt8ForAllPoints
  | GetAttributeInt16ForAllPoints
  | GetAttributeUInt16ForAllPoints
  | GetAttributeUInt32ForAllPoints
  | GetAttributeInt32ForAllPoints
  | GetAttributeFloatForAllPoints

definition attributeDispatch :: "nat \<Rightarrow> getter \<times> arrayKind" where
  "attributeDispatch data_type =
     (if data_type = 1 then (GetAttributeInt8ForAllPoints, Int8Array)
      else if data_type = 2 then (GetAttributeUInt8ForAllPoints, Uint8Array)
      else if data_type = 3 then (GetAttributeInt16ForAllPoints, Int16Array)
      else if data_type = 4 then (GetAttributeUInt16ForAllPoints, Uint16Array)
      else if data_type = 6 then (GetAttributeUInt32ForAllPoints, Uint32Array)
      else if data_type = 5 then (GetAttributeInt32ForAllPoints, Uint32Array)
      else (GetAttributeFloatForAllPoints, Float32Array))"

definition supportedComponentTypes :: "nat set" where
  "supportedComponentTypes = {BYTE, UNSIGNED_BYTE, SHORT, UNSIGNED_SHORT, INT_type, UNSIGNED_INT, FLOAT}"

text \<open>
  The codec's data type codes of the supported types: 8, 16 and 32 bit signed and
  unsigned integers are 1 to 6, the 32 bit float is 9.
\<close>

definition supportedDataTypes :: "nat set" where
  "supportedDataTypes = {1, 2, 3, 4, 5, 6, 9}"

section \<open>Configuration\<close>

record dracoOptions =
  compressionLevel :: "jsnum option"
  quantizePositionBits :: "jsnum option"
  quantizeNormalBits :: "jsnum option"
  quantizeTexcoordBits :: "jsnum option"
  quantizeColorBits :: "jsnum option"
  quantizeGenericBits :: "jsnum option"
  unifiedQuantization :: "bool option"
  gltf2ObjDirectory :: "string option"

record options =
  opt_dracoOptions :: "dracoOptions option"


record config =
  cfg_compressionLevel :: jsnum
  cfg_quantizePositionBits :: jsnum
  cfg_quantizeNormalBits :: jsnum
  cfg_quantizeTexcoordBits :: jsnum
  cfg_quantizeColorBits :: jsnum
  cfg_quantizeGenericBits :: jsnum
  cfg_unifiedQuantization :: bool

text \<open>\<open>compressDracoMeshes.defaults\<close> (its \<open>quantizeSkinBits\<close> is never read).\<close>

definition defaults :: config where
  "defaults = \<lparr> cfg_compressionLevel = Fin 7, cfg_quantizePositionBits = Fin 14,
     cfg_quantizeNormalBits = Fin 10, cfg_quantizeTexcoordBits = Fin 12,
     cfg_quantizeColorBits = Fin 8, cfg_quantizeGenericBits = Fin 12,
     cfg_unifiedQuantization = False \<rparr>"

definition noDracoOptions :: dracoOptions where
  "noDracoOptions = \<lparr> compressionLevel = None, quantizePositionBits = None,
     quantizeNormalBits = None, quantizeTexcoordBits = None, quantizeColorBits = None,
     quantizeGenericBits = None, unifiedQuantization = None, gltf2ObjDirectory = None \<rparr>"




section \<open>Unified quantization\<close>





record quantization =
  positionOrigin :: "jsnum list option"
  positionRange :: "jsnum option"

definition noQuantization :: quantization where
  "noQuantization = \<lparr> positionOrigin = None, positionRange = None \<rparr>"





section \<open>The collaborators of the compress pass\<close>

text \<open>
  \<open>splitPrimitives\<close>, \<open>readAccessorPacked\<close>, \<open>numberOfComponentsForType\<close>,
  \<open>replaceWithDecompressedPrimitive\<close>, \<open>addExtensionsRequired\<close>, \<open>removeExtensionsUsed\<close>
  and \<open>removeUnusedElements\<close> are files of the repository that are not under src/ and
  that the spec does not describe step by step: they are parameters of the model, the
  fields of \<open>helpers\<close>. The helpers that receive the asset act on it in place;
  \<open>replaceWithDecompressedPrimitive\<close> receives the primitive by its place. The codec
  (draco3d), the hash (object-hash) and Cesium's typed array constructor are external
  libraries: they are parameters too, the further fields of \<open>env\<close>. The codec's mesh
  under construction has the abstract type \<open>'m\<close>.
\<close>

datatype attributeEnum = POSITION | NORMAL | COLOR | TEX_COORD | GENERIC

type_synonym typedArray = "arrayKind \<times> jsnum list"

datatype encoderCall =
    SetSpeedOptions jsnum jsnum
  | SetAttributeQuantization attributeEnum jsnum
  | SetAttributeExplicitQuantization attributeEnum jsnum nat "jsnum list option" "jsnum option"
  | SetEncodingMethod_MESH_SEQUENTIAL_ENCODING
  | SetTrackEncodedProperties bool

record encoded =
  encodedLength :: int
  enc_GetValue :: "nat \<Rightarrow> byte"
  NumberOfEncodedPoints :: nat
  NumberOfEncodedFaces :: nat

record primitiveGeometry =
  geo_attributes :: "(string \<times> nat) list"
  geo_indices :: "nat option"
  geo_mode :: "nat option"

record helpers =
  splitPrimitives :: "gltf \<Rightarrow> gltf"
  readAccessorPacked :: "gltf \<Rightarrow> accessor option \<Rightarrow> error + jsnum list"
  numberOfComponentsForType :: "string \<Rightarrow> jsnum"
  replaceWithDecompressedPrimitive :: "gltf \<Rightarrow> loc \<Rightarrow> nat \<Rightarrow> nat \<Rightarrow> gltf outcome"
  addExtensionsRequired :: "gltf \<Rightarrow> string \<Rightarrow> gltf"
  removeExtensionsUsed :: "gltf \<Rightarrow> string \<Rightarrow> gltf"
  removeUnusedElements :: "gltf \<Rightarrow> gltf"

record 'm env = helpers +
  hashObject :: "primitiveGeometry \<Rightarrow> string"
  createTypedArray :: "nat \<Rightarrow> jsnum list \<Rightarrow> error + typedArray"
  newMesh :: 'm
  AddFacesToMesh :: "'m \<Rightarrow> jsnum \<Rightarrow> 32 word list \<Rightarrow> 'm"
  AddAttribute :: "string \<Rightarrow> 'm \<Rightarrow> attributeEnum \<Rightarrow> nat \<Rightarrow> jsnum \<Rightarrow> typedArray \<Rightarrow> int \<times> 'm"
  EncodeMeshToDracoBuffer :: "encoderCall list \<Rightarrow> 'm \<Rightarrow> encoded"

section \<open>Rewriting the asset after an encode\<close>

text \<open>
  The attribute loop of \<open>addCompressionExtensionToPrimitive\<close> (lines 440 to 445): for
  each attribute of the primitive a clone of its accessor, without \<open>bufferView\<close> and
  \<open>byteOffset\<close>, is appended to \<open>gltf.accessors\<close>, and the attribute is pointed at the
  clone. \<open>delete\<close> on the clone of a missing accessor is a \<open>TypeError\<close>.
\<close>

fun removeAttributeBufferViews :: "(string \<times> nat) list \<Rightarrow> loc \<Rightarrow> gltf \<Rightarrow> gltf outcome" where
  "removeAttributeBufferViews [] l g = Returned g"
| "removeAttributeBufferViews ((semantic, accessorId) # rest) l g =
     (case lookup (accessors g) accessorId of
        None \<Rightarrow> Threw (TypeError ''Cannot convert undefined or null to object'') g
      | Some a \<Rightarrow>
          let attributeAccessor = a\<lparr>acc_bufferView := None, acc_byteOffset := None\<rparr>;
              added = addToArray (accessors g) attributeAccessor;
              g1 = updPrimitive (g\<lparr>accessors := fst added\<rparr>) l
                     (\<lambda>p. p\<lparr>prim_attributes := AList.update semantic (snd added) (prim_attributes p)\<rparr>)
          in removeAttributeBufferViews rest l g1)"

definition noExtensions :: primExtensions where
  "noExtensions = \<lparr> KHR_draco_mesh_compression = None, otherExtensions = [] \<rparr>"

text \<open>
  \<open>addCompressionExtensionToPrimitive\<close> (lines 431 to 470). \<open>primitive\<close> is the object at
  the place \<open>l\<close> of \<open>g\<close>. The last statement hands the asset to
  \<open>replaceWithDecompressedPrimitive\<close>.
\<close>

definition addCompressionExtensionToPrimitive ::
  "'m env \<Rightarrow> gltf \<Rightarrow> loc \<Rightarrow> primitive \<Rightarrow> (string \<times> int) list \<Rightarrow> nat \<Rightarrow> byte list \<Rightarrow> nat \<Rightarrow> nat
     \<Rightarrow> gltf outcome" where
  "addCompressionExtensionToPrimitive env g l primitive attributeToId encodedLen encodedData
       encodedPointsCount encodedFacesCount =
     (case (case prim_indices primitive of None \<Rightarrow> None | Some i \<Rightarrow> lookup (accessors g) i) of
        None \<Rightarrow> Threw (TypeError ''Cannot convert undefined or null to object'') g
      | Some a \<Rightarrow>
          let indicesAccessor = a\<lparr>acc_bufferView := None, acc_byteOffset := None\<rparr>;
              added = addToArray (accessors g) indicesAccessor;
              g1 = setPrimitive (g\<lparr>accessors := fst added\<rparr>) l
                     (primitive\<lparr>prim_indices := Some (snd added)\<rparr>)
          in (case removeAttributeBufferViews (prim_attributes primitive) l g1 of
                Threw e g2 \<Rightarrow> Threw e g2
              | Returned g2 \<Rightarrow>
                  let newBuffer = \<lparr> buf_byteLength = encodedLen, buf_source = Some encodedData \<rparr>;
                      addedBuffer = addToArray (buffers g2) newBuffer;
                      newBufferView = \<lparr> bv_buffer = snd addedBuffer, bv_byteOffset = Some 0,
                                        bv_byteLength = encodedLen \<rparr>;
                      addedView = addToArray (bufferViews g2) newBufferView;
                      g3 = g2\<lparr>buffers := fst addedBuffer, bufferViews := fst addedView\<rparr>;
                      g4 = updPrimitive g3 l
                             (\<lambda>p. p\<lparr>prim_extensions :=
                                Some ((defaultValue (prim_extensions p) noExtensions)
                                  \<lparr>KHR_draco_mesh_compression :=
                                     Some \<lparr> ext_bufferView = snd addedView,
                                            ext_attributes = attributeToId \<rparr>\<rparr>)\<rparr>)
                  in replaceWithDecompressedPrimitive env g4 l encodedPointsCount encodedFacesCount))"

text \<open>
  \<open>copyCompressedExtensionToPrimitive\<close> (lines 472 to 484) mutates \<open>primitive\<close> from the
  cached \<open>compressedPrimitive\<close>; reading the extension record of a primitive without one
  is a \<open>TypeError\<close>, after the references were copied.
\<close>

definition copyCompressedExtensionToPrimitive :: "primitive \<Rightarrow> primitive \<Rightarrow> primitive outcome" where
  "copyCompressedExtensionToPrimitive primitive compressedPrimitive =
     (let p1 = primitive\<lparr>prim_attributes :=
                 fold (\<lambda>sa attrs. AList.update (fst sa) (snd sa) attrs)
                      (prim_attributes compressedPrimitive) (prim_attributes primitive)\<rparr>;
          p2 = p1\<lparr>prim_indices := prim_indices compressedPrimitive\<rparr>
      in (case prim_extensions compressedPrimitive of
            None \<Rightarrow> Threw (TypeError ''Cannot read property KHR_draco_mesh_compression of undefined'') p2
          | Some ce \<Rightarrow>
              let p3 = p2\<lparr>prim_extensions := Some (defaultValue (prim_extensions p2) noExtensions)\<rparr>
              in (case KHR_draco_mesh_compression ce of
                    None \<Rightarrow> Threw (TypeError ''Cannot read property bufferView of undefined'') p3
                  | Some dracoExt \<Rightarrow>
                      Returned (p3\<lparr>prim_extensions :=
                        Some ((defaultValue (prim_extensions p2) noExtensions)
                          \<lparr>KHR_draco_mesh_compression :=
                             Some \<lparr> ext_bufferView = ext_bufferView dracoExt,
                                    ext_attributes = ext_attributes dracoExt \<rparr>\<rparr>)\<rparr>))))"

section \<open>The compress pass\<close>

text \<open>
  The attribute class of a semantic (lines 166 to 178): the part before the first
  underscore, unless the underscore is the first character or there is none.
\<close>

definition attributeName :: "string \<Rightarrow> string" where
  "attributeName semantic =
     (if CHR ''_'' \<in> set semantic \<and> 0 < length (takeWhile (\<lambda>c. c \<noteq> CHR ''_'') semantic)
      then takeWhile (\<lambda>c. c \<noteq> CHR ''_'') semantic
      else semantic)"

definition attributeEnumOf :: "string \<Rightarrow> attributeEnum" where
  "attributeEnumOf name =
     (if name = ''POSITION'' then POSITION
      else if name = ''NORMAL'' then NORMAL
      else if name = ''COLOR'' then COLOR
      else if name = ''TEXCOORD'' then TEX_COORD
      else GENERIC)"

text \<open>
  The attribute loop of the encode (lines 156 to 205). The text dump of the attribute
  (the debug export, \<open>outputAttribute\<close>) is left out. Calling the method
  \<open>meshBuilder[undefined]\<close> is a \<open>TypeError\<close>.
\<close>

fun addAttributesToMesh ::
  "'m env \<Rightarrow> gltf \<Rightarrow> (string \<times> nat) list \<Rightarrow> 'm \<Rightarrow> (string \<times> int) list
     \<Rightarrow> error + 'm \<times> (string \<times> int) list" where
  "addAttributesToMesh env g [] m attributeToId = Inr (m, attributeToId)"
| "addAttributesToMesh env g ((semantic, accessorId) # rest) m attributeToId =
     (case lookup (accessors g) accessorId of
        None \<Rightarrow> Inl (TypeError ''Cannot read property componentType of undefined'')
      | Some a \<Rightarrow>
          (case readAccessorPacked env g (Some a) of
             Inl e \<Rightarrow> Inl e
           | Inr packed \<Rightarrow>
               (case createTypedArray env (acc_componentType a) packed of
                  Inl e \<Rightarrow> Inl e
                | Inr data \<Rightarrow>
                    (case getAddAttributeFunctionName (acc_componentType a) of
                       None \<Rightarrow> Inl (TypeError ''meshBuilder[addAttributeFunctionName] is not a function'')
                     | Some name \<Rightarrow>
                         let added = AddAttribute env name m (attributeEnumOf (attributeName semantic))
                                       (acc_count a) (numberOfComponentsForType env (acc_type a)) data
                         in if fst added = - 1
                            then Inl (RuntimeError (''Error: Failed adding attribute '' @ semantic))
                            else addAttributesToMesh env g rest (snd added)
                                   (AList.update semantic (fst added) attributeToId)))))"

text \<open>The encoder settings of lines 260 to 286, in the order of the calls.\<close>

definition encoderCalls :: "config \<Rightarrow> quantization \<Rightarrow> bool \<Rightarrow> encoderCall list" where
  "encoderCalls c q hasTargets =
     [SetSpeedOptions (js_minus (Fin 10) (cfg_compressionLevel c))
                      (js_minus (Fin 10) (cfg_compressionLevel c))]
     @ (if js_gt (cfg_quantizePositionBits c) (Fin 0)
        then (if cfg_unifiedQuantization c
              then [SetAttributeExplicitQuantization POSITION (cfg_quantizePositionBits c) 3
                      (positionOrigin q) (positionRange q)]
              else [SetAttributeQuantization POSITION (cfg_quantizePositionBits c)])
        else [])
     @ (if js_gt (cfg_quantizeNormalBits c) (Fin 0)
        then [SetAttributeQuantization NORMAL (cfg_quantizeNormalBits c)] else [])
     @ (if js_gt (cfg_quantizeTexcoordBits c) (Fin 0)
        then [SetAttributeQuantization TEX_COORD (cfg_quantizeTexcoordBits c)] else [])
     @ (if js_gt (cfg_quantizeColorBits c) (Fin 0)
        then [SetAttributeQuantization COLOR (cfg_quantizeColorBits c)] else [])
     @ (if js_gt (cfg_quantizeGenericBits c) (Fin 0)
        then [SetAttributeQuantization GENERIC (cfg_quantizeGenericBits c)] else [])
     @ (if hasTargets then [SetEncodingMethod_MESH_SEQUENTIAL_ENCODING] else [])
     @ [SetTrackEncodedProperties True]"

text \<open>
  The state of the pass: the asset, the fingerprint cache \<open>hashPrimitives\<close> (a cached
  primitive is a reference, so the cache holds its place), the flag \<open>addedExtension\<close>,
  and a log of the calls of the codec's encode operation, each entry the \<open>hashValue\<close> in
  scope at the call (the log is not in the source: it counts the calls).
\<close>

record passState =
  st_gltf :: gltf
  hashPrimitives :: "string \<Rightarrow> loc option"
  addedExtension :: bool
  encodeLog :: "string list"

definition primitiveGeometryOf :: "primitive \<Rightarrow> primitiveGeometry" where
  "primitiveGeometryOf p = \<lparr> geo_attributes = prim_attributes p, geo_indices = prim_indices p,
                             geo_mode = prim_mode p \<rparr>"

text \<open>
  Lines 133 to 304: the encode of a primitive that missed the cache. Line 133 reads
  \<open>options.dracoOptions.gltf2ObjDirectory\<close>, a \<open>TypeError\<close> when the caller gave no
  \<open>dracoOptions\<close>. The text dumps of the faces (the debug export) are left out.
\<close>

definition encodePrimitive ::
  "'m env \<Rightarrow> options \<Rightarrow> config \<Rightarrow> quantization \<Rightarrow> loc \<Rightarrow> primitive \<Rightarrow> string \<Rightarrow> passState
     \<Rightarrow> passState outcome" where
  "encodePrimitive env opts c q l primitive hashValue st =
     (case opt_dracoOptions opts of
        None \<Rightarrow> Threw (TypeError ''Cannot read property gltf2ObjDirectory of undefined'') st
      | Some d \<Rightarrow>
          (case readAccessorPacked env (st_gltf st)
                  (case prim_indices primitive of None \<Rightarrow> None
                   | Some i \<Rightarrow> lookup (accessors (st_gltf st)) i) of
             Inl e \<Rightarrow> Threw e st
           | Inr indicesData \<Rightarrow>
               let indices = map ToUint32 indicesData;
                   numberOfFaces = Fin (real (length indices) / 3);
                   m = AddFacesToMesh env (newMesh env) numberOfFaces indices
               in (case addAttributesToMesh env (st_gltf st) (prim_attributes primitive) m [] of
                     Inl e \<Rightarrow> Threw e st
                   | Inr built \<Rightarrow>
                       let st' = st\<lparr>encodeLog := encodeLog st @ [hashValue]\<rparr>;
                           r = EncodeMeshToDracoBuffer env
                                 (encoderCalls c q (defined (prim_targets primitive))) (fst built)
                       in if encodedLength r \<le> 0
                          then Threw (RuntimeError ''Error: Draco encoding failed.'') st'
                          else
                            (case addCompressionExtensionToPrimitive env (st_gltf st') l primitive
                                    (snd built) (nat (encodedLength r))
                                    (map (enc_GetValue r) [0..<nat (encodedLength r)])
                                    (NumberOfEncodedPoints r) (NumberOfEncodedFaces r) of
                               Threw e g' \<Rightarrow> Threw e (st'\<lparr>st_gltf := g'\<rparr>)
                             | Returned g' \<Rightarrow> Returned (st'\<lparr>st_gltf := g'\<rparr>)))))"

text \<open>The handler of \<open>ForEach.meshPrimitive\<close> (lines 107 to 305), at the place \<open>l\<close>.\<close>

definition compressPrimitive ::
  "'m env \<Rightarrow> options \<Rightarrow> config \<Rightarrow> quantization \<Rightarrow> loc \<Rightarrow> passState \<Rightarrow> passState outcome" where
  "compressPrimitive env opts c q l st =
     (case getPrimitive (st_gltf st) l of
        None \<Rightarrow> Threw (TypeError ''Cannot read property mode of undefined'') st
      | Some primitive \<Rightarrow>
          if defined (prim_mode primitive) \<and> prim_mode primitive \<noteq> Some TRIANGLES then Returned st
          else if \<not> defined (prim_indices primitive) then Returned st
          else
            let st1 = st\<lparr>addedExtension := True\<rparr>;
                hashValue = hashObject env (primitiveGeometryOf primitive)
            in (case hashPrimitives st1 hashValue of
                  Some cached \<Rightarrow>
                    (case getPrimitive (st_gltf st1) cached of
                       None \<Rightarrow> Threw (TypeError ''Cannot read property attributes of undefined'') st1
                     | Some compressedPrimitive \<Rightarrow>
                         (case copyCompressedExtensionToPrimitive primitive compressedPrimitive of
                            Threw e p \<Rightarrow> Threw e (st1\<lparr>st_gltf := setPrimitive (st_gltf st1) l p\<rparr>)
                          | Returned p \<Rightarrow> Returned (st1\<lparr>st_gltf := setPrimitive (st_gltf st1) l p\<rparr>)))
                | None \<Rightarrow>
                    encodePrimitive env opts c q l primitive hashValue
                      (st1\<lparr>hashPrimitives := (hashPrimitives st1)(hashValue \<mapsto> l)\<rparr>)))"

text \<open>
  The handler of \<open>ForEach.mesh\<close> (lines 97 to 312). After the primitives of a mesh,
  line 309 reads \<open>options.dracoOptions.gltf2ObjDirectory\<close> again; the file that is then
  written (the debug export) is left out.
\<close>

definition compressMesh ::
  "'m env \<Rightarrow> options \<Rightarrow> config \<Rightarrow> quantization \<Rightarrow> nat \<Rightarrow> passState \<Rightarrow> passState outcome" where
  "compressMesh env opts c q mi st =
     (case lookup (meshes (st_gltf st)) mi of
        None \<Rightarrow> Threw (TypeError ''Cannot read property primitives of undefined'') st
      | Some m \<Rightarrow>
          (case forEach (\<lambda>pi. compressPrimitive env opts c q (mi, pi))
                  [0..<length (mesh_primitives m)] st of
             Threw e s \<Rightarrow> Threw e s
           | Returned s \<Rightarrow>
               (case opt_dracoOptions opts of
                  None \<Rightarrow> Threw (TypeError ''Cannot read property gltf2ObjDirectory of undefined'') s
                | Some d \<Rightarrow> Returned s)))"

definition compressMeshes ::
  "'m env \<Rightarrow> options \<Rightarrow> config \<Rightarrow> quantization \<Rightarrow> passState \<Rightarrow> passState outcome" where
  "compressMeshes env opts c q st =
     forEach (compressMesh env opts c q) [0..<length (meshes (st_gltf st))] st"


definition initialState :: "gltf \<Rightarrow> passState" where
  "initialState g = \<lparr> st_gltf = g, hashPrimitives = Map.empty, addedExtension = False,
                      encodeLog = [] \<rparr>"


section \<open>The decompress pass\<close>

text \<open>
  The decoder of the codec is a parameter: \<open>'g\<close> is the decoded geometry, \<open>'a\<close> one of its
  attributes. A codec array has a size and a \<open>GetValue\<close>. \<open>typedArrayBytes kind values\<close> are
  the bytes of a typed array of that kind after the values were assigned to its elements
  in order (the layout of numbers in memory is not modelled). A Node \<open>Buffer\<close> is the
  list of its bytes.
\<close>

datatype geometryType = TRIANGULAR_MESH | POINT_CLOUD | INVALID_GEOMETRY_TYPE

record dracoArray =
  da_size :: nat
  da_GetValue :: "nat \<Rightarrow> jsnum"

record 'g decoded =
  status_ok :: bool
  status_error_msg :: string
  dracoGeometry :: 'g
  dracoGeometry_ptr :: nat

record ('g, 'a) decoderEnv = helpers +
  GetEncodedGeometryType :: "byte list \<Rightarrow> nat \<Rightarrow> geometryType"
  DecodeBufferToMesh :: "byte list \<Rightarrow> nat \<Rightarrow> 'g decoded"
  DecodeBufferToPointCloud :: "byte list \<Rightarrow> nat \<Rightarrow> 'g decoded"
  num_faces :: "'g \<Rightarrow> nat"
  num_points :: "'g \<Rightarrow> nat"
  GetAttributeId :: "'g \<Rightarrow> attributeEnum \<Rightarrow> int"
  GetFaceFromMesh :: "'g \<Rightarrow> nat \<Rightarrow> jsnum \<times> jsnum \<times> jsnum"
  GetAttributeByUniqueId :: "'g \<Rightarrow> int \<Rightarrow> 'a"
  data_type :: "'a \<Rightarrow> nat"
  num_components :: "'a \<Rightarrow> nat"
  GetAttributeForAllPoints :: "getter \<Rightarrow> 'g \<Rightarrow> 'a \<Rightarrow> dracoArray"
  typedArrayBytes :: "arrayKind \<Rightarrow> jsnum list \<Rightarrow> byte list"

text \<open>\<open>addBufferToGltf\<close> (lines 91 to 109): the new asset and the id of the new bufferView.\<close>

definition addBufferToGltf :: "gltf \<Rightarrow> byte list \<Rightarrow> gltf \<times> nat" where
  "addBufferToGltf g bytes =
     (let encodedLen = length bytes;
          newBuffer = \<lparr> buf_byteLength = encodedLen, buf_source = Some bytes \<rparr>;
          addedBuffer = addToArray (buffers g) newBuffer;
          newBufferView = \<lparr> bv_buffer = snd addedBuffer, bv_byteOffset = Some 0,
                            bv_byteLength = encodedLen \<rparr>;
          addedView = addToArray (bufferViews g) newBufferView
      in (g\<lparr>buffers := fst addedBuffer, bufferViews := fst addedView\<rparr>, snd addedView))"

text \<open>
  \<open>removePrimitiveExtension\<close> (lines 119 to 131). The extension object of the model has
  the compression record and the names of its other keys.
\<close>

definition extensionDefined :: "primExtensions \<Rightarrow> string \<Rightarrow> bool" where
  "extensionDefined e name =
     (if name = ''KHR_draco_mesh_compression'' then defined (KHR_draco_mesh_compression e)
      else name \<in> set (otherExtensions e))"

definition deleteExtension :: "primExtensions \<Rightarrow> string \<Rightarrow> primExtensions" where
  "deleteExtension e name =
     (if name = ''KHR_draco_mesh_compression'' then e\<lparr>KHR_draco_mesh_compression := None\<rparr>
      else e\<lparr>otherExtensions := removeAll name (otherExtensions e)\<rparr>)"

definition extensionKeys :: "primExtensions \<Rightarrow> nat" where
  "extensionKeys e =
     (if defined (KHR_draco_mesh_compression e) then 1 else 0) + length (remdups (otherExtensions e))"

definition removePrimitiveExtension :: "string \<Rightarrow> primitive \<Rightarrow> primitive" where
  "removePrimitiveExtension name p = (case prim_extensions p of
       None \<Rightarrow> p
     | Some e \<Rightarrow>
         if extensionDefined e name
         then (if extensionKeys (deleteExtension e name) = 0
               then p\<lparr>prim_extensions := None\<rparr>
               else p\<lparr>prim_extensions := Some (deleteExtension e name)\<rparr>)
         else p)"

text \<open>
  \<open>getIndicesBuffer\<close> (lines 133 to 163): the array has the element type of the
  accessor's component type, \<open>Uint32Array\<close> for any type that is not one of the four
  short ones, and receives the three vertex indices of each face in face order.
\<close>

definition indicesArrayKind :: "nat \<Rightarrow> arrayKind" where
  "indicesArrayKind componentType =
     (if componentType = 5120 then Int8Array
      else if componentType = 5121 then Uint8Array
      else if componentType = 5122 then Int16Array
      else if componentType = 5123 then Uint16Array
      else Uint32Array)"

definition getIndicesBuffer :: "('g, 'a) decoderEnv \<Rightarrow> accessor \<Rightarrow> 'g \<Rightarrow> nat \<Rightarrow> byte list" where
  "getIndicesBuffer denv a geom numFaces =
     typedArrayBytes denv (indicesArrayKind (acc_componentType a))
       (concat (map (\<lambda>i. case GetFaceFromMesh denv geom i of (v0, v1, v2) \<Rightarrow> [v0, v1, v2])
                    [0..<numFaces]))"

text \<open>
  \<open>getAttributeBuffer\<close> (lines 165 to 225): the typed array has \<open>attributeData.size()\<close>
  elements, and the loop assigns the first \<open>numPoints * numComponents\<close> values of the
  codec array; an assignment past the end of a typed array does nothing, and an element
  that is not assigned stays zero.
\<close>

definition getAttributeBuffer :: "('g, 'a) decoderEnv \<Rightarrow> 'g \<Rightarrow> 'a \<Rightarrow> byte list" where
  "getAttributeBuffer denv geom attribute =
     (let numValues = num_points denv geom * num_components denv attribute;
          attributeData = GetAttributeForAllPoints denv
                            (fst (attributeDispatch (data_type denv attribute))) geom attribute
      in typedArrayBytes denv (snd (attributeDispatch (data_type denv attribute)))
           (map (\<lambda>i. if i < numValues then da_GetValue attributeData i else Fin 0)
                [0..<da_size attributeData]))"

text \<open>
  The attribute loop of \<open>decmopressDracoMesh\<close> (lines 291 to 307), over the extension's
  mapping from semantic to codec attribute id. The primitive itself is only read.
  Line 301 reads \<open>attributeAccessor.componentType\<close>: a \<open>TypeError\<close> when the primitive has
  no such attribute or the accessor is missing, after the buffer was added.
\<close>

fun decompressAttributes ::
  "('g, 'a) decoderEnv \<Rightarrow> 'g \<Rightarrow> primitive \<Rightarrow> (string \<times> int) list \<Rightarrow> gltf \<Rightarrow> gltf outcome" where
  "decompressAttributes denv geom primitive [] g = Returned g"
| "decompressAttributes denv geom primitive ((semantic, uniqueId) # rest) g =
     (let attribute = GetAttributeByUniqueId denv geom uniqueId;
          added = addBufferToGltf g (getAttributeBuffer denv geom attribute);
          g1 = fst added
      in (case (case map_of (prim_attributes primitive) semantic of
                  None \<Rightarrow> None
                | Some gltfAttributeId \<Rightarrow>
                    map_option (\<lambda>a. (gltfAttributeId, a)) (lookup (accessors g1) gltfAttributeId)) of
            None \<Rightarrow> Threw (TypeError ''Cannot read property componentType of undefined'') g1
          | Some (gltfAttributeId, attributeAccessor) \<Rightarrow>
              decompressAttributes denv geom primitive rest
                (g1\<lparr>accessors := (accessors g1)[gltfAttributeId :=
                   attributeAccessor\<lparr>acc_count := num_points denv geom,
                                     acc_bufferView := Some (snd added),
                                     acc_byteOffset := Some 0\<rparr>]\<rparr>)))"

text \<open>
  Lines 231 to 238: the decode, by the kind of geometry. The codec buffer is the pair of
  the bytes and the size given to \<open>Init\<close>.
\<close>

definition decodeBuffer ::
  "('g, 'a) decoderEnv \<Rightarrow> geometryType \<Rightarrow> byte list \<times> nat \<Rightarrow> 'g decoded" where
  "decodeBuffer denv geomType dracoBuffer =
     (if geomType = TRIANGULAR_MESH
      then DecodeBufferToMesh denv (fst dracoBuffer) (snd dracoBuffer)
      else DecodeBufferToPointCloud denv (fst dracoBuffer) (snd dracoBuffer))"

text \<open>\<open>decmopressDracoMesh\<close> (lines 227 to 308).\<close>

definition decmopressDracoMesh ::
  "('g, 'a) decoderEnv \<Rightarrow> gltf \<Rightarrow> primitive \<Rightarrow> geometryType \<Rightarrow> byte list \<times> nat \<Rightarrow> dracoExtension
     \<Rightarrow> gltf outcome" where
  "decmopressDracoMesh denv g primitive geomType dracoBuffer dracoExt =
     (let d = decodeBuffer denv geomType dracoBuffer;
          geom = dracoGeometry d
      in if \<not> status_ok d \<or> dracoGeometry_ptr d = 0
         then Threw (JsError (''THREE.DRACOLoader: Decoding failed: '' @ status_error_msg d)) g
         else
           let numFaces = (if geomType = TRIANGULAR_MESH then num_faces denv geom else 0)
           in if GetAttributeId denv geom POSITION = - 1
              then Threw (JsError ''THREE.DRACOLoader: No position attribute found.'') g
              else (case (case prim_indices primitive of
                            None \<Rightarrow> None
                          | Some i \<Rightarrow> map_option (\<lambda>a. (i, a)) (lookup (accessors g) i)) of
                      None \<Rightarrow> Threw (TypeError ''Cannot read property componentType of undefined'') g
                    | Some (indicesId, indicesAccessor) \<Rightarrow>
                        let added = addBufferToGltf g
                                      (getIndicesBuffer denv indicesAccessor geom numFaces);
                            g1 = (fst added)\<lparr>accessors := (accessors (fst added))[indicesId :=
                                   indicesAccessor\<lparr>acc_bufferView := Some (snd added),
                                                   acc_byteOffset := Some 0\<rparr>]\<rparr>
                        in decompressAttributes denv geom primitive (ext_attributes dracoExt) g1))"

text \<open>
  \<open>source.slice(byteOffset, byteOffset + byteLength)\<close> on the bytes of the buffer. With
  \<open>byteOffset\<close> undefined the end is \<open>NaN\<close>, which \<open>slice\<close> reads as 0: the result is empty.
\<close>

definition Uint8Array_slice :: "byte list \<Rightarrow> nat option \<Rightarrow> nat \<Rightarrow> byte list" where
  "Uint8Array_slice source byteOffset byteLen = (case byteOffset of
       None \<Rightarrow> []
     | Some off \<Rightarrow> drop off (take (off + byteLen) source))"

text \<open>The handler of \<open>ForEach.meshPrimitive\<close> in \<open>decompressDracoMeshes\<close> (lines 45 to 83).\<close>

definition decompressPrimitive :: "('g, 'a) decoderEnv \<Rightarrow> loc \<Rightarrow> gltf \<Rightarrow> gltf outcome" where
  "decompressPrimitive denv l g =
     (case getPrimitive g l of
        None \<Rightarrow> Threw (TypeError ''Cannot read property mode of undefined'') g
      | Some primitive \<Rightarrow>
          if defined (prim_mode primitive) \<and> prim_mode primitive \<noteq> Some 4 then Returned g
          else (case (case prim_extensions primitive of
                        None \<Rightarrow> None
                      | Some e \<Rightarrow> KHR_draco_mesh_compression e) of
                  None \<Rightarrow> Returned g
                | Some dracoExt \<Rightarrow>
                    (case lookup (bufferViews g) (ext_bufferView dracoExt) of
                       None \<Rightarrow> Threw (TypeError ''Cannot read property buffer of undefined'') g
                     | Some bv \<Rightarrow>
                         (case lookup (buffers g) (bv_buffer bv) of
                            None \<Rightarrow> Threw (TypeError ''Cannot read property extras of undefined'') g
                          | Some b \<Rightarrow>
                              (case buf_source b of
                                 None \<Rightarrow> Threw (TypeError ''Cannot read property buffer of undefined'') g
                               | Some source \<Rightarrow>
                                   let compressedData = Uint8Array_slice source (bv_byteOffset bv) (bv_byteLength bv);
                                       geomType = GetEncodedGeometryType denv compressedData
                                                    (buf_byteLength b)
                                   in (case decmopressDracoMesh denv g primitive geomType
                                              (compressedData, buf_byteLength b) dracoExt of
                                         Threw e g' \<Rightarrow> Threw e g'
                                       | Returned g' \<Rightarrow>
                                           Returned (removeExtensionsUsed denv
                                             (updPrimitive g' l
                                                (removePrimitiveExtension ''KHR_draco_mesh_compression''))
                                             ''KHR_draco_mesh_compression'')))))))"

definition decompressMesh :: "('g, 'a) decoderEnv \<Rightarrow> nat \<Rightarrow> gltf \<Rightarrow> gltf outcome" where
  "decompressMesh denv mi g =
     (case lookup (meshes g) mi of
        None \<Rightarrow> Threw (TypeError ''Cannot read property primitives of undefined'') g
      | Some m \<Rightarrow> forEach (\<lambda>pi. decompressPrimitive denv (mi, pi)) [0..<length (mesh_primitives m)] g)"

definition decompressMeshes :: "('g, 'a) decoderEnv \<Rightarrow> gltf \<Rightarrow> gltf outcome" where
  "decompressMeshes denv g = forEach (decompressMesh denv) [0..<length (meshes g)] g"

text \<open>\<open>decompressDracoMeshes\<close> (lines 42 to 88).\<close>

definition decompressDracoMeshes :: "('g, 'a) decoderEnv \<Rightarrow> gltf \<Rightarrow> gltf outcome" where
  "decompressDracoMeshes denv g = (case decompressMeshes denv g of
       Threw e g' \<Rightarrow> Threw e g'
     | Returned g' \<Rightarrow> Returned (removeUnusedElements denv g'))"

section \<open>The animation compress pass\<close>

text \<open>
  \<open>compressDracoAnimations\<close> of lib/compressDracoAnimations.js. The animation codec
  (draco-animation) is a parameter; \<open>'k\<close> is its keyframe animation under construction.
  \<open>extractedAnimations\<close> is an object keyed by accessor ids: \<open>for ... in\<close> visits such keys
  in ascending order, so the model keeps the entries sorted by key.
\<close>

record encodedAnimation =
  anim_encodedLen :: int
  anim_GetValue :: "nat \<Rightarrow> byte"

record 'k animationEnv = helpers +
  newKeyframeAnimation :: 'k
  SetTimestamps :: "'k \<Rightarrow> nat \<Rightarrow> jsnum list \<Rightarrow> 'k"
  AddKeyframes :: "'k \<Rightarrow> nat \<Rightarrow> jsnum \<Rightarrow> jsnum list \<Rightarrow> int \<times> 'k"
  EncodeAnimationToDracoBuffer :: "jsnum \<Rightarrow> jsnum \<Rightarrow> 'k \<Rightarrow> encodedAnimation"

record animationOptions =
  quantizeTimestamps :: "jsnum option"
  quantizeKeyframes :: "jsnum option"

type_synonym extracted = "(nat \<times> compressedAnimation) list"

text \<open>The handler of the extraction (lines 114 to 132); the state is the object and the count.\<close>

definition extractSampler :: "sampler \<Rightarrow> extracted \<times> nat \<Rightarrow> error + extracted \<times> nat" where
  "extractSampler s st = (case smp_input s of
       None \<Rightarrow> Inl (RuntimeError ''Error: Animation missing input/output.'')
     | Some i \<Rightarrow> (case smp_output s of
         None \<Rightarrow> Inl (RuntimeError ''Error: Animation missing input/output.'')
       | Some output \<Rightarrow>
           if \<not> defined (smp_interpolation s)
           then Inl (RuntimeError ''Error: Animation missing interpolation method.'')
           else if map_of (fst st) i = None
           then Inr (insort_key fst
                       (i, \<lparr> ca_input = i, ca_outputs = [output], ca_attributesId = [],
                              ca_bufferView = None \<rparr>) (fst st),
                     snd st + 1)
           else Inr (AList.map_entry i (\<lambda>e. e\<lparr>ca_outputs := ca_outputs e @ [output]\<rparr>) (fst st),
                     snd st + 1)))"

fun extractSamplers :: "sampler list \<Rightarrow> extracted \<times> nat \<Rightarrow> error + extracted \<times> nat" where
  "extractSamplers [] st = Inr st"
| "extractSamplers (s # rest) st = (case extractSampler s st of
       Inl e \<Rightarrow> Inl e
     | Inr st' \<Rightarrow> extractSamplers rest st')"

definition allSamplers :: "gltf \<Rightarrow> sampler list" where
  "allSamplers g = concat (map anim_samplers (animations g))"

text \<open>The \<open>outputs.forEach\<close> of the encode loop (lines 160 to 171).\<close>

fun addAllKeyframes ::
  "'k animationEnv \<Rightarrow> gltf \<Rightarrow> nat \<Rightarrow> nat list \<Rightarrow> 'k \<times> int list \<Rightarrow> error + 'k \<times> int list" where
  "addAllKeyframes env g numKeyframes [] st = Inr st"
| "addAllKeyframes env g numKeyframes (output # rest) st =
     (case lookup (accessors g) output of
        None \<Rightarrow> Inl (TypeError ''Cannot read property type of undefined'')
      | Some a \<Rightarrow>
          (case readAccessorPacked env g (Some a) of
             Inl e \<Rightarrow> Inl e
           | Inr packed \<Rightarrow>
               let added = AddKeyframes env (fst st) numKeyframes
                             (numberOfComponentsForType env (acc_type a)) packed
               in if fst added \<le> 0
                  then Inl (RuntimeError ''Error: Failed adding new keyframes data.'')
                  else addAllKeyframes env g numKeyframes rest (snd added, snd st @ [fst added])))"

text \<open>
  \<open>addCompressedAnimation\<close> (lines 78 to 97) and the body of the encode loop (lines 142
  to 194), for one entry.
\<close>

definition addCompressedAnimation ::
  "gltf \<Rightarrow> compressedAnimation \<Rightarrow> nat \<Rightarrow> byte list \<Rightarrow> gltf \<times> compressedAnimation" where
  "addCompressedAnimation g entry encodedLen encodedData =
     (let newBuffer = \<lparr> buf_byteLength = encodedLen, buf_source = Some encodedData \<rparr>;
          addedBuffer = addToArray (buffers g) newBuffer;
          newBufferView = \<lparr> bv_buffer = snd addedBuffer, bv_byteOffset = Some 0,
                            bv_byteLength = encodedLen \<rparr>;
          addedView = addToArray (bufferViews g) newBufferView
      in (g\<lparr>buffers := fst addedBuffer, bufferViews := fst addedView\<rparr>,
          entry\<lparr>ca_bufferView := Some (snd addedView)\<rparr>))"

definition encodeAnimation ::
  "'k animationEnv \<Rightarrow> jsnum \<Rightarrow> jsnum \<Rightarrow> gltf \<Rightarrow> nat \<times> compressedAnimation
     \<Rightarrow> error + gltf \<times> compressedAnimation" where
  "encodeAnimation env timestampsQuantization keyframesQuantization g ie =
     (case readAccessorPacked env g (lookup (accessors g) (fst ie)) of
        Inl e \<Rightarrow> Inl e
      | Inr timestampsData \<Rightarrow>
          let numKeyframes = length timestampsData;
              k = SetTimestamps env (newKeyframeAnimation env) numKeyframes timestampsData
          in (case addAllKeyframes env g numKeyframes (ca_outputs (snd ie)) (k, []) of
                Inl e \<Rightarrow> Inl e
              | Inr built \<Rightarrow>
                  let r = EncodeAnimationToDracoBuffer env timestampsQuantization
                            keyframesQuantization (fst built)
                  in if anim_encodedLen r \<le> 0
                     then Inl (RuntimeError ''Error: Encoding failed.'')
                     else Inr (addCompressedAnimation g ((snd ie)\<lparr>ca_attributesId := snd built\<rparr>)
                                 (nat (anim_encodedLen r))
                                 (map (anim_GetValue r) [0..<nat (anim_encodedLen r)]))))"

fun encodeAnimations ::
  "'k animationEnv \<Rightarrow> jsnum \<Rightarrow> jsnum \<Rightarrow> extracted \<Rightarrow> gltf \<times> extracted \<Rightarrow> (gltf \<times> extracted) outcome" where
  "encodeAnimations env tq kq [] st = Returned st"
| "encodeAnimations env tq kq (ie # rest) st =
     (case encodeAnimation env tq kq (fst st) ie of
        Inl e \<Rightarrow> Threw e st
      | Inr r \<Rightarrow> encodeAnimations env tq kq rest (fst r, snd st @ [(fst ie, snd r)]))"

text \<open>
  \<open>removeDataAndReplaceAccessor\<close> (lines 24 to 46): a new accessor with the five
  descriptive properties of the old one is appended, and every sampler that names the old
  accessor is pointed at the new one. Reading a property of a missing accessor is a
  \<open>TypeError\<close>.
\<close>

definition replaceInSampler :: "nat \<Rightarrow> nat \<Rightarrow> sampler \<Rightarrow> sampler" where
  "replaceInSampler oldAccessorId newAccessorId s =
     (let s1 = (if smp_input s = Some oldAccessorId then s\<lparr>smp_input := Some newAccessorId\<rparr> else s)
      in if smp_output s1 = Some oldAccessorId then s1\<lparr>smp_output := Some newAccessorId\<rparr> else s1)"

definition removeDataAndReplaceAccessor :: "gltf \<Rightarrow> nat \<Rightarrow> error + gltf \<times> nat" where
  "removeDataAndReplaceAccessor g oldAccessorId = (case lookup (accessors g) oldAccessorId of
       None \<Rightarrow> Inl (TypeError ''Cannot read property componentType of undefined'')
     | Some oldAccessor \<Rightarrow>
         let newAccessor = \<lparr> acc_bufferView = None, acc_byteOffset = None,
                             acc_componentType = acc_componentType oldAccessor,
                             acc_count = acc_count oldAccessor,
                             acc_max = acc_max oldAccessor,
                             acc_min = acc_min oldAccessor,
                             acc_type = acc_type oldAccessor,
                             acc_others = [] \<rparr>;
             added = addToArray (accessors g) newAccessor
         in Inr (g\<lparr>accessors := fst added,
                   animations := map (\<lambda>a. a\<lparr>anim_samplers :=
                                   map (replaceInSampler oldAccessorId (snd added)) (anim_samplers a)\<rparr>)
                                 (animations g)\<rparr>,
                 snd added))"

text \<open>
  \<open>removeAllSamplerAccessorData\<close> (lines 50 to 74). \<open>replacedAccessors\<close> is a sparse array
  from old accessor ids to new ones. The state of the inner loop is the asset,
  \<open>replacedAccessors\<close> and the outputs rewritten so far; the state of the outer loop is
  the asset, \<open>replacedAccessors\<close> and the entries rewritten so far.
\<close>

fun replaceOutputs ::
  "nat list \<Rightarrow> gltf \<times> (nat \<Rightarrow> nat option) \<times> nat list
     \<Rightarrow> (gltf \<times> (nat \<Rightarrow> nat option) \<times> nat list) outcome" where
  "replaceOutputs [] st = Returned st"
| "replaceOutputs (output # rest) st =
     (if fst (snd st) output \<noteq> None
      then Threw (RuntimeError ''Error: Duplicated output in animation extension.'') st
      else (case removeDataAndReplaceAccessor (fst st) output of
              Inl e \<Rightarrow> Threw e st
            | Inr r \<Rightarrow>
                replaceOutputs rest
                  (fst r, (fst (snd st))(output \<mapsto> snd r), snd (snd st) @ [snd r])))"

fun removeAllSamplerAccessorData ::
  "extracted \<Rightarrow> gltf \<times> (nat \<Rightarrow> nat option) \<times> extracted
     \<Rightarrow> (gltf \<times> (nat \<Rightarrow> nat option) \<times> extracted) outcome" where
  "removeAllSamplerAccessorData [] st = Returned st"
| "removeAllSamplerAccessorData (ie # rest) st =
     (if fst (snd st) (fst ie) \<noteq> None
      then Threw (RuntimeError ''Error: Duplicated input in animation extension.'') st
      else (case removeDataAndReplaceAccessor (fst st) (fst ie) of
              Inl e \<Rightarrow> Threw e st
            | Inr r \<Rightarrow>
                (case replaceOutputs (ca_outputs (snd ie))
                        (fst r, (fst (snd st))(fst ie \<mapsto> snd r), []) of
                   Threw e st' \<Rightarrow> Threw e (fst st', fst (snd st'), snd (snd st))
                 | Returned st' \<Rightarrow>
                     removeAllSamplerAccessorData rest
                       (fst st', fst (snd st'),
                        snd (snd st) @ [(fst ie, (snd ie)\<lparr>ca_input := snd r,
                                                           ca_outputs := snd (snd st')\<rparr>)]))))"

text \<open>\<open>compressDracoAnimations\<close> (lines 99 to 212).\<close>

definition compressDracoAnimations ::
  "'k animationEnv \<Rightarrow> gltf \<Rightarrow> animationOptions option \<Rightarrow> gltf outcome" where
  "compressDracoAnimations env g options0 =
     (let opts = defaultValue options0 \<lparr> quantizeTimestamps = None, quantizeKeyframes = None \<rparr>;
          timestampsQuantization = defaultValue (quantizeTimestamps opts) (Fin 16);
          keyframesQuantization = defaultValue (quantizeKeyframes opts) (Fin 16)
      in (case extractSamplers (allSamplers g) ([], 0) of
            Inl e \<Rightarrow> Threw e g
          | Inr ex \<Rightarrow>
              if snd ex = 0 then Returned g
              else
                let g1 = addExtensionsRequired env g ''Draco_animation_compression''
                in (case encodeAnimations env timestampsQuantization keyframesQuantization
                           (fst ex) (g1, []) of
                      Threw e st \<Rightarrow> Threw e (fst st)
                    | Returned st \<Rightarrow>
                        (case removeAllSamplerAccessorData (snd st) (fst st, Map.empty, []) of
                           Threw e st' \<Rightarrow> Threw e (fst st')
                         | Returned st' \<Rightarrow>
                             Returned ((fst st')\<lparr>Draco_animation_compression :=
                               Some (defaultValue (Draco_animation_compression (fst st')) []
                                     @ map snd (snd (snd st')))\<rparr>)))))"

section \<open>Predicates of the claims\<close>



text \<open>A primitive the compress pass works on: a triangle mode (or none) and indices.\<close>

definition eligible :: "primitive \<Rightarrow> bool" where
  "eligible p = (\<not> (defined (prim_mode p) \<and> prim_mode p \<noteq> Some TRIANGLES) \<and> defined (prim_indices p))"

text \<open>The compression record of a primitive, and of the primitive at a place of the asset.\<close>

definition dracoExtensionOf :: "primitive \<Rightarrow> dracoExtension option" where
  "dracoExtensionOf p = (case prim_extensions p of None \<Rightarrow> None | Some e \<Rightarrow> KHR_draco_mesh_compression e)"

definition extensionAt :: "gltf \<Rightarrow> loc \<Rightarrow> dracoExtension option" where
  "extensionAt g l = (case getPrimitive g l of None \<Rightarrow> None | Some p \<Rightarrow> dracoExtensionOf p)"

text \<open>
  The accessor \<open>a'\<close> has no \<open>bufferView\<close> and no \<open>byteOffset\<close>, and describes the same
  data as \<open>a\<close>.
\<close>

definition strippedCopyOf :: "accessor \<Rightarrow> accessor \<Rightarrow> bool" where
  "strippedCopyOf a' a = (acc_bufferView a' = None \<and> acc_byteOffset a' = None
     \<and> acc_componentType a' = acc_componentType a \<and> acc_count a' = acc_count a
     \<and> acc_min a' = acc_min a \<and> acc_max a' = acc_max a \<and> acc_type a' = acc_type a)"


text \<open>
  Two samplers that the animation pass cannot tell apart afterwards: they have different
  inputs and the same output, or the input of the first is the output of the second.
\<close>

definition conflicting :: "sampler \<Rightarrow> sampler \<Rightarrow> bool" where
  "conflicting s1 s2 =
     ((smp_input s1 \<noteq> smp_input s2 \<and> smp_output s1 \<noteq> None \<and> smp_output s1 = smp_output s2)
      \<or> (smp_input s1 \<noteq> None \<and> smp_input s1 = smp_output s2))"

section \<open>Notions of the proofs\<close>

text \<open>The clone of an accessor without its data, as the rewriter makes it.\<close>

definition strip :: "accessor \<Rightarrow> accessor" where
  "strip a = a\<lparr>acc_bufferView := None, acc_byteOffset := None\<rparr>"

text \<open>The number of primitives of each mesh.\<close>

definition shape :: "gltf \<Rightarrow> nat list" where
  "shape g = map (\<lambda>m. length (mesh_primitives m)) (meshes g)"


text \<open>A step at the place \<open>l\<close> leaves the other places and the number of places alone.\<close>

definition sameElsewhere :: "loc \<Rightarrow> gltf \<Rightarrow> gltf \<Rightarrow> bool" where
  "sameElsewhere l g g' = (shape g' = shape g \<and> (\<forall>l'. l' \<noteq> l \<longrightarrow> getPrimitive g' l' = getPrimitive g l'))"

text \<open>
  The invariant of the mesh loop of the compress pass, with \<open>g0\<close> the asset at the start
  of the loop and \<open>D\<close> the places visited so far: the places not yet visited are as in
  \<open>g0\<close>; every cached place was visited and carries a compression record; every
  visited place with an eligible primitive carries the record of the place cached under
  its fingerprint; the encode operation was called once for each cached fingerprint and
  for no other.
\<close>

definition dedupInv :: "'m env \<Rightarrow> gltf \<Rightarrow> loc set \<Rightarrow> passState \<Rightarrow> bool" where
  "dedupInv env g0 D st =
     (shape (st_gltf st) = shape g0
      \<and> (\<forall>l. l \<notin> D \<longrightarrow> getPrimitive (st_gltf st) l = getPrimitive g0 l)
      \<and> (\<forall>h l0. hashPrimitives st h = Some l0 \<longrightarrow> l0 \<in> D \<and> extensionAt (st_gltf st) l0 \<noteq> None)
      \<and> (\<forall>l \<in> D. \<forall>p. getPrimitive g0 l = Some p \<longrightarrow> eligible p \<longrightarrow>
            (\<exists>l0. hashPrimitives st (hashObject env (primitiveGeometryOf p)) = Some l0
                 \<and> extensionAt (st_gltf st) l = extensionAt (st_gltf st) l0))
      \<and> (\<forall>h. count_list (encodeLog st) h = (if hashPrimitives st h = None then 0 else 1)))"

text \<open>The error of an outcome, if it threw.\<close>

fun errorOf :: "'s outcome \<Rightarrow> error option" where
  "errorOf (Threw e s) = Some e"
| "errorOf (Returned s) = None"

text \<open>
  What \<open>removeAllSamplerAccessorData\<close> reads of an entry, its key and its outputs, and
  the accessor ids it replaces, in the order of the replacements.
\<close>

definition signature :: "nat \<times> compressedAnimation \<Rightarrow> nat \<times> nat list" where
  "signature ie = (fst ie, ca_outputs (snd ie))"

definition replacedIds :: "(nat \<times> nat list) list \<Rightarrow> nat list" where
  "replacedIds sigs = concat (map (\<lambda>p. fst p # snd p) sigs)"

text \<open>
  The sampler \<open>s\<close> is recorded in the extracted entries: its output is among the outputs
  of the entry of its input. The entries \<open>ex'\<close> keep every entry of \<open>ex\<close>, with at least
  its outputs.
\<close>

definition extractedFrom :: "sampler \<Rightarrow> extracted \<Rightarrow> bool" where
  "extractedFrom s ex = (\<exists>i output e. smp_input s = Some i \<and> smp_output s = Some output
       \<and> map_of ex i = Some e \<and> output \<in> set (ca_outputs e))"

definition extends :: "extracted \<Rightarrow> extracted \<Rightarrow> bool" where
  "extends ex ex' = (\<forall>i e. map_of ex i = Some e \<longrightarrow>
       (\<exists>e'. map_of ex' i = Some e' \<and> set (ca_outputs e) \<subseteq> set (ca_outputs e')))"

section \<open>Example assets and stand-ins for the collaborators\<close>

definition positionAccessor :: "real list \<Rightarrow> real list \<Rightarrow> accessor" where
  "positionAccessor mn mx = \<lparr> acc_bufferView = Some 0, acc_byteOffset = Some 0,
     acc_componentType = FLOAT, acc_count = 3, acc_max = Some (map Fin mx),
     acc_min = Some (map Fin mn), acc_type = ''VEC3'', acc_others = [] \<rparr>"

definition indexAccessor :: accessor where
  "indexAccessor = \<lparr> acc_bufferView = Some 1, acc_byteOffset = Some 0,
     acc_componentType = UNSIGNED_SHORT, acc_count = 3, acc_max = None, acc_min = None,
     acc_type = ''SCALAR'', acc_others = [] \<rparr>"

definition trianglePrimitive :: "nat \<Rightarrow> nat \<Rightarrow> primitive" where
  "trianglePrimitive position indexId = \<lparr> prim_attributes = [(''POSITION'', position)],
     prim_indices = Some indexId, prim_mode = Some 4, prim_targets = None,
     prim_extensions = None \<rparr>"

definition linesPrimitive :: "nat \<Rightarrow> nat \<Rightarrow> primitive" where
  "linesPrimitive position indexId = \<lparr> prim_attributes = [(''POSITION'', position)],
     prim_indices = Some indexId, prim_mode = Some 1, prim_targets = None,
     prim_extensions = None \<rparr>"

definition exampleBuffers :: "buffer list" where
  "exampleBuffers = [\<lparr> buf_byteLength = 42, buf_source = Some (replicate 42 0) \<rparr>]"

definition exampleBufferViews :: "bufferView list" where
  "exampleBufferViews = [\<lparr> bv_buffer = 0, bv_byteOffset = Some 0, bv_byteLength = 36 \<rparr>,
                         \<lparr> bv_buffer = 0, bv_byteOffset = Some 36, bv_byteLength = 6 \<rparr>]"



text \<open>
  Stand-ins for the collaborators, for running the model on an example: the helpers leave
  the asset alone, the hash is the list of the accessor ids of the fingerprint, and the
  codec numbers the attributes from 0 and returns two bytes.
\<close>

definition exampleEnv :: "nat env" where
  "exampleEnv = \<lparr> splitPrimitives = (\<lambda>g. g),
     readAccessorPacked = (\<lambda>g a. Inr [Fin 0, Fin 1, Fin 2]),
     numberOfComponentsForType = (\<lambda>t. Fin 3),
     replaceWithDecompressedPrimitive = (\<lambda>g l points faces. Returned g),
     addExtensionsRequired = (\<lambda>g name. g),
     removeExtensionsUsed = (\<lambda>g name. g),
     removeUnusedElements = (\<lambda>g. g),
     hashObject = (\<lambda>geo. concat (map fst (geo_attributes geo))),
     createTypedArray = (\<lambda>componentType packed. Inr (Float32Array, packed)),
     newMesh = 0,
     AddFacesToMesh = (\<lambda>m faces indices. m),
     AddAttribute = (\<lambda>name m attributeEnum points components data. (int m, Suc m)),
     EncodeMeshToDracoBuffer = (\<lambda>calls m. \<lparr> encodedLength = 2, enc_GetValue = (\<lambda>i. 7),
                                  NumberOfEncodedPoints = 3, NumberOfEncodedFaces = 1 \<rparr>) \<rparr>"

definition exampleOptions :: "jsnum \<Rightarrow> options" where
  "exampleOptions level = \<lparr> opt_dracoOptions =
     Some (noDracoOptions\<lparr>compressionLevel := Some level, gltf2ObjDirectory := Some ''out''\<rparr>) \<rparr>"

text \<open>Two identical triangle primitives and a line primitive between them.\<close>

definition mixedAsset :: gltf where
  "mixedAsset = \<lparr> accessors = [positionAccessor [0, 0, 0] [1, 1, 1], indexAccessor],
     bufferViews = exampleBufferViews, buffers = exampleBuffers,
     meshes = [\<lparr> mesh_primitives = [trianglePrimitive 0 1, linesPrimitive 0 1, trianglePrimitive 0 1] \<rparr>],
     animations = [], extensionsUsed = [], extensionsRequired = [],
     Draco_animation_compression = None \<rparr>"




text \<open>
  A stand-in for the animation codec, and two assets with two samplers each: in the first
  the samplers have the inputs 0 and 1 and share the output 2, in the second they have
  the outputs 2 and 3.
\<close>

definition exampleAnimationEnv :: "nat animationEnv" where
  "exampleAnimationEnv = \<lparr> splitPrimitives = (\<lambda>g. g),
     readAccessorPacked = (\<lambda>g a. Inr [Fin 0, Fin 1, Fin 2]),
     numberOfComponentsForType = (\<lambda>t. Fin 3),
     replaceWithDecompressedPrimitive = (\<lambda>g l points faces. Returned g),
     addExtensionsRequired = (\<lambda>g name. g),
     removeExtensionsUsed = (\<lambda>g name. g),
     removeUnusedElements = (\<lambda>g. g),
     newKeyframeAnimation = 0,
     SetTimestamps = (\<lambda>k numKeyframes timestamps. k),
     AddKeyframes = (\<lambda>k numKeyframes numComponents keyframes. (int (Suc k), Suc k)),
     EncodeAnimationToDracoBuffer = (\<lambda>tq kq k. \<lparr> anim_encodedLen = 2, anim_GetValue = (\<lambda>i. 7) \<rparr>) \<rparr>"

definition linearSampler :: "nat \<Rightarrow> nat \<Rightarrow> sampler" where
  "linearSampler i out = \<lparr> smp_input = Some i, smp_output = Some out,
                            smp_interpolation = Some ''LINEAR'' \<rparr>"

definition animatedAsset :: "sampler list \<Rightarrow> gltf" where
  "animatedAsset samplers = \<lparr> accessors = [indexAccessor, indexAccessor,
                                           positionAccessor [0, 0, 0] [1, 1, 1],
                                           positionAccessor [0, 0, 0] [1, 1, 1]],
     bufferViews = exampleBufferViews, buffers = exampleBuffers, meshes = [],
     animations = [\<lparr> anim_samplers = samplers \<rparr>], extensionsUsed = [], extensionsRequired = [],
     Draco_animation_compression = None \<rparr>"

section \<open>Basic facts about the asset and the loops\<close>

lemma lookup_Some_iff: "lookup xs i = Some x \<longleftrightarrow> i < length xs \<and> xs ! i = x"
  by (auto simp: lookup_def)

lemma lookup_None_iff: "lookup xs i = None \<longleftrightarrow> length xs \<le> i"
  by (auto simp: lookup_def)

lemma getPrimitive_Some_iff:
  "getPrimitive g l = Some p \<longleftrightarrow>
     fst l < length (meshes g) \<and> snd l < length (mesh_primitives (meshes g ! fst l))
     \<and> mesh_primitives (meshes g ! fst l) ! snd l = p"
  by (auto simp: getPrimitive_def lookup_def split: option.splits)

lemma getPrimitive_setPrimitive_same:
  "getPrimitive g l = Some p \<Longrightarrow> getPrimitive (setPrimitive g l q) l = Some q"
  by (auto simp: getPrimitive_Some_iff setPrimitive_def lookup_def)

lemma getPrimitive_setPrimitive_other:
  "l' \<noteq> l \<Longrightarrow> getPrimitive (setPrimitive g l q) l' = getPrimitive g l'"
  by (cases l; cases l')
     (auto simp: getPrimitive_def setPrimitive_def lookup_def nth_list_update split: option.splits)

lemma shape_setPrimitive [simp]: "shape (setPrimitive g l q) = shape g"
  by (auto simp: shape_def setPrimitive_def lookup_def map_update list_update_same_conv split: option.splits)

lemma setPrimitive_fields [simp]:
  "accessors (setPrimitive g l q) = accessors g"
  "bufferViews (setPrimitive g l q) = bufferViews g"
  "buffers (setPrimitive g l q) = buffers g"
  by (auto simp: setPrimitive_def split: option.splits)

lemma getPrimitive_fields [simp]:
  "getPrimitive (g\<lparr>accessors := x\<rparr>) l = getPrimitive g l"
  "getPrimitive (g\<lparr>bufferViews := y\<rparr>) l = getPrimitive g l"
  "getPrimitive (g\<lparr>buffers := z\<rparr>) l = getPrimitive g l"
  by (auto simp: getPrimitive_def)

lemma shape_fields [simp]:
  "shape (g\<lparr>accessors := x\<rparr>) = shape g"
  "shape (g\<lparr>bufferViews := y\<rparr>) = shape g"
  "shape (g\<lparr>buffers := z\<rparr>) = shape g"
  by (auto simp: shape_def)

lemma updPrimitive_Some: "getPrimitive g l = Some p \<Longrightarrow> updPrimitive g l f = setPrimitive g l (f p)"
  by (simp add: updPrimitive_def)

lemma updPrimitive_fields [simp]:
  "accessors (updPrimitive g l f) = accessors g"
  "bufferViews (updPrimitive g l f) = bufferViews g"
  "buffers (updPrimitive g l f) = buffers g"
  "shape (updPrimitive g l f) = shape g"
  by (auto simp: updPrimitive_def split: option.splits)

lemma getPrimitive_updPrimitive_other:
  "l' \<noteq> l \<Longrightarrow> getPrimitive (updPrimitive g l f) l' = getPrimitive g l'"
  by (auto simp: updPrimitive_def getPrimitive_setPrimitive_other split: option.splits)

lemma getPrimitive_updPrimitive_same:
  "getPrimitive g l = Some p \<Longrightarrow> getPrimitive (updPrimitive g l f) l = Some (f p)"
  by (simp add: updPrimitive_Some getPrimitive_setPrimitive_same)

lemma getPrimitive_meshes_cong: "meshes g' = meshes g \<Longrightarrow> getPrimitive g' l = getPrimitive g l"
  by (simp add: getPrimitive_def)

lemma shape_meshes_cong: "meshes g' = meshes g \<Longrightarrow> shape g' = shape g"
  by (simp add: shape_def)

lemma getPrimitive_None_shape:
  "getPrimitive g l = None \<longleftrightarrow> \<not> (fst l < length (shape g) \<and> snd l < shape g ! fst l)"
  by (auto simp: getPrimitive_def lookup_def shape_def split: option.splits)


lemma forEach_set_invariant_aux:
  assumes step: "\<And>D' x s1 s2. I D' s1 \<Longrightarrow> x \<in> S \<Longrightarrow> x \<notin> D' \<Longrightarrow> h x s1 = Returned s2
                 \<Longrightarrow> I (insert x D') s2"
  shows "forEach h xs s = Returned s' \<Longrightarrow> I D s \<Longrightarrow> distinct xs \<Longrightarrow> set xs \<inter> D = {}
           \<Longrightarrow> set xs \<subseteq> S \<Longrightarrow> I (D \<union> set xs) s'"
proof (induction xs arbitrary: D s)
  case Nil
  then show ?case by simp
next
  case (Cons x xs)
  from Cons.prems(1) obtain s1 where s1: "h x s = Returned s1" "forEach h xs s1 = Returned s'"
    by (auto split: outcome.splits)
  have "I (insert x D) s1"
    using Cons.prems(2,4,5) s1(1) by (intro step) auto
  moreover have "set xs \<inter> insert x D = {}" using Cons.prems(3,4) by auto
  ultimately have "I (insert x D \<union> set xs) s'"
    using s1(2) Cons.prems(3,5) Cons.IH[of s1 "insert x D"] by simp
  then show ?case by simp
qed

lemma forEach_set_invariant:
  assumes "forEach h xs s = Returned s'" "I D s" "distinct xs" "set xs \<inter> D = {}"
    and step: "\<And>D' x s1 s2. I D' s1 \<Longrightarrow> x \<in> set xs \<Longrightarrow> x \<notin> D' \<Longrightarrow> h x s1 = Returned s2
                 \<Longrightarrow> I (insert x D') s2"
  shows "I (D \<union> set xs) s'"
  using forEach_set_invariant_aux[where S = "set xs" and I = I and h = h, OF step assms(1-4)]
  by simp

lemma exampleEnv_frame:
  "meshes (stateOf (replaceWithDecompressedPrimitive exampleEnv g l points faces)) = meshes g"
  by (simp add: exampleEnv_def)

lemma run_example: "\<not> isThrew (compressMeshes exampleEnv (exampleOptions (Fin 7)) defaults noQuantization
          (initialState mixedAsset))"
  by code_simp


section \<open>The type dispatch: claim C6\<close>

lemma addAttributesToMesh_unsupported:
  assumes "lookup (accessors g) accessorId = Some a" "acc_componentType a \<notin> supportedComponentTypes"
  shows "isl (addAttributesToMesh env g ((semantic, accessorId) # rest) m attributeToId)"
proof -
  have "getAddAttributeFunctionName (acc_componentType a) = None"
    using assms(2) by (simp add: getAddAttributeFunctionName_def supportedComponentTypes_def)
  then show ?thesis
    using assms(1) by (simp split: sum.splits)
qed

text \<open>
  Claim C6 says that a component type outside the supported ones makes the type dispatch
  fail with an explicit "unsupported attribute type" error rather than silently
  defaulting to some typed operation. The code has no such error. At the codec data type
  7 (a 64 bit integer, not one of the supported types) the dispatch of
  \<open>getAttributeBuffer\<close> silently takes the 32 bit float operation.
\<close>

theorem dispatch_defaults_to_float:
  "7 \<notin> supportedDataTypes \<and> attributeDispatch 7 = (GetAttributeFloatForAllPoints, Float32Array)"
  by (simp add: supportedDataTypes_def attributeDispatch_def)

text \<open>
  Claim C6 as amended: for a component type outside the seven supported ones
  \<open>getAddAttributeFunctionName\<close> returns no operation name (\<open>undefined\<close>) and raises no
  error of its own; the decode-side dispatch of \<open>getAttributeBuffer\<close> treats every codec
  data type other than 1 to 6 as a 32 bit float (\<open>GetAttributeFloatForAllPoints\<close> into a
  \<open>Float32Array\<close>).
\<close>

theorem dispatch_outside_table:
  "(ct \<notin> supportedComponentTypes \<longrightarrow> getAddAttributeFunctionName ct = None)
   \<and> (dt \<notin> {1, 2, 3, 4, 5, 6} \<longrightarrow> attributeDispatch dt = (GetAttributeFloatForAllPoints, Float32Array))"
  by (simp add: getAddAttributeFunctionName_def supportedComponentTypes_def attributeDispatch_def)

theorem dispatch_outside_table_witness:
  "5130 \<notin> supportedComponentTypes \<and> getAddAttributeFunctionName 5130 = None
   \<and> (10::nat) \<notin> {1, 2, 3, 4, 5, 6} \<and> attributeDispatch 10 = (GetAttributeFloatForAllPoints, Float32Array)"
  using dispatch_outside_table [of 5130 10]
  by (simp add: supportedComponentTypes_def BYTE_def UNSIGNED_BYTE_def SHORT_def UNSIGNED_SHORT_def
        INT_type_def UNSIGNED_INT_def FLOAT_def)

section \<open>Configuration errors: claim C7\<close>










section \<open>Unified quantization: claim C2\<close>


lemma Math_min_Fin [simp]: "Math_min (Fin a) (Fin b) = Fin (min a b)"
  by (auto simp: Math_min_def)

lemma Math_max_Fin [simp]: "Math_max (Fin a) (Fin b) = Fin (max a b)"
  by (auto simp: Math_max_def)

lemma Math_min_PosInf [simp]: "Math_min PosInf (Fin b) = Fin b"
  by (simp add: Math_min_def)

lemma Math_max_NegInf [simp]: "Math_max NegInf (Fin b) = Fin b"
  by (simp add: Math_max_def)










section \<open>Attaching the compressed payload: claim C5\<close>


lemma map_of_update_other: "s \<noteq> k \<Longrightarrow> map_of (AList.update k v al) s = map_of al s"
  by (simp add: update_conv')




lemma strippedCopyOf_strip [simp]: "strippedCopyOf (strip a) a"
  by (simp add: strippedCopyOf_def strip_def)




section \<open>Mode filtering: claim C4\<close>

lemma sameElsewhere_refl [simp]: "sameElsewhere l g g"
  by (simp add: sameElsewhere_def)

lemma sameElsewhere_trans: "sameElsewhere l g g1 \<Longrightarrow> sameElsewhere l g1 g2 \<Longrightarrow> sameElsewhere l g g2"
  unfolding sameElsewhere_def by metis

lemma sameElsewhere_setPrimitive [simp]: "sameElsewhere l g (setPrimitive g l q)"
  by (simp add: sameElsewhere_def getPrimitive_setPrimitive_other)


lemma sameElsewhere_meshes: "meshes g' = meshes g \<Longrightarrow> sameElsewhere l g g'"
  by (simp add: sameElsewhere_def getPrimitive_def shape_def)

lemma sameElsewhereD:
  "sameElsewhere l g g' \<Longrightarrow> l' \<noteq> l \<Longrightarrow> getPrimitive g' l' = getPrimitive g l'"
  unfolding sameElsewhere_def by blast

lemma removeAttributeBufferViews_elsewhere:
  "sameElsewhere l g (stateOf (removeAttributeBufferViews rest l g))"
proof (induction rest arbitrary: g)
  case Nil
  then show ?case by simp
next
  case (Cons sa rest)
  obtain semantic accessorId where sa: "sa = (semantic, accessorId)" by (cases sa)
  show ?case
  proof (cases "lookup (accessors g) accessorId")
    case None
    then show ?thesis by (simp add: sa)
  next
    case (Some a)
    let ?g1 = "updPrimitive (g\<lparr>accessors := accessors g @ [a\<lparr>acc_bufferView := None, acc_byteOffset := None\<rparr>]\<rparr>) l
               (\<lambda>p. p\<lparr>prim_attributes := AList.update semantic (length (accessors g)) (prim_attributes p)\<rparr>)"
    have "sameElsewhere l g ?g1"
      by (simp add: sameElsewhere_def getPrimitive_updPrimitive_other)
    moreover have "sameElsewhere l ?g1 (stateOf (removeAttributeBufferViews rest l ?g1))"
      by (rule Cons.IH)
    ultimately have "sameElsewhere l g (stateOf (removeAttributeBufferViews rest l ?g1))"
      by (rule sameElsewhere_trans)
    then show ?thesis
      using Some by (simp add: sa addToArray_def Let_def)
  qed
qed

lemma addCompressionExtensionToPrimitive_elsewhere:
  assumes frame: "\<And>g l points faces.
      meshes (stateOf (replaceWithDecompressedPrimitive env g l points faces)) = meshes g"
  shows "sameElsewhere l g (stateOf (addCompressionExtensionToPrimitive env g l primitive
           attributeToId encodedLen encodedData points faces))"
proof (cases "case prim_indices primitive of None \<Rightarrow> None | Some i \<Rightarrow> lookup (accessors g) i")
  case None
  then show ?thesis by (simp add: addCompressionExtensionToPrimitive_def)
next
  case (Some a)
  let ?g1 = "setPrimitive (g\<lparr>accessors := accessors g @ [a\<lparr>acc_bufferView := None, acc_byteOffset := None\<rparr>]\<rparr>) l
                     (primitive\<lparr>prim_indices := Some (length (accessors g))\<rparr>)"
  have 1: "sameElsewhere l g ?g1"
    by (simp add: sameElsewhere_def getPrimitive_setPrimitive_other)
  have 2: "sameElsewhere l ?g1 (stateOf (removeAttributeBufferViews (prim_attributes primitive) l ?g1))"
    by (rule removeAttributeBufferViews_elsewhere)
  show ?thesis
  proof (cases "removeAttributeBufferViews (prim_attributes primitive) l ?g1")
    case (Threw e g2)
    have "stateOf (addCompressionExtensionToPrimitive env g l primitive
           attributeToId encodedLen encodedData points faces) = g2"
      using Some Threw by (simp add: addCompressionExtensionToPrimitive_def addToArray_def Let_def)
    with sameElsewhere_trans[OF 1 2] Threw show ?thesis by simp
  next
    case (Returned g2)
    from sameElsewhere_trans[OF 1 2] Returned have 3: "sameElsewhere l g g2" by simp
    let ?g3 = "g2\<lparr>buffers := buffers g2 @ [\<lparr> buf_byteLength = encodedLen, buf_source = Some encodedData \<rparr>],
               bufferViews := bufferViews g2 @ [\<lparr> bv_buffer = length (buffers g2),
                  bv_byteOffset = Some 0, bv_byteLength = encodedLen \<rparr>]\<rparr>"
    let ?g4 = "updPrimitive ?g3 l (\<lambda>p. p\<lparr>prim_extensions :=
                                Some ((defaultValue (prim_extensions p) noExtensions)
                                  \<lparr>KHR_draco_mesh_compression :=
                                     Some \<lparr> ext_bufferView = length (bufferViews g2),
                                            ext_attributes = attributeToId \<rparr>\<rparr>)\<rparr>)"
    have 4: "sameElsewhere l g2 ?g4"
      by (simp add: sameElsewhere_def getPrimitive_updPrimitive_other)
    have 5: "sameElsewhere l ?g4 (stateOf (replaceWithDecompressedPrimitive env ?g4 l points faces))"
      by (rule sameElsewhere_meshes) (rule frame)
    have "addCompressionExtensionToPrimitive env g l primitive
           attributeToId encodedLen encodedData points faces = replaceWithDecompressedPrimitive env ?g4 l points faces"
      using Some Returned by (simp add: addCompressionExtensionToPrimitive_def addToArray_def Let_def)
    with sameElsewhere_trans[OF 3 sameElsewhere_trans[OF 4 5]] show ?thesis by simp
  qed
qed

lemma encodePrimitive_cases:
  "st_gltf (stateOf (encodePrimitive env opts c q l primitive hashValue st)) = st_gltf st
   \<or> (\<exists>a2i n d pc fc. st_gltf (stateOf (encodePrimitive env opts c q l primitive hashValue st)) =
          stateOf (addCompressionExtensionToPrimitive env (st_gltf st) l primitive a2i n d pc fc))"
proof (cases "opt_dracoOptions opts")
  case None
  then show ?thesis by (simp add: encodePrimitive_def)
next
  case (Some d)
  note d = this
  show ?thesis
  proof (cases "readAccessorPacked env (st_gltf st)
                  (case prim_indices primitive of None \<Rightarrow> None
                   | Some i \<Rightarrow> lookup (accessors (st_gltf st)) i)")
    case (Inl e)
    then show ?thesis using d by (simp add: encodePrimitive_def)
  next
    case (Inr indicesData)
    note i = this
    show ?thesis
    proof (cases "addAttributesToMesh env (st_gltf st) (prim_attributes primitive)
             (AddFacesToMesh env (newMesh env) (Fin (real (length (map ToUint32 indicesData)) / 3))
                (map ToUint32 indicesData)) []")
      case (Inl e)
      then show ?thesis using d i by (simp add: encodePrimitive_def Let_def)
    next
      case (Inr built)
      let ?r = "EncodeMeshToDracoBuffer env (encoderCalls c q (defined (prim_targets primitive))) (fst built)"
      show ?thesis
      proof (cases "encodedLength ?r \<le> 0")
        case True
        then show ?thesis using d i Inr by (simp add: encodePrimitive_def Let_def)
      next
        case False
        let ?a = "addCompressionExtensionToPrimitive env (st_gltf st) l primitive
                    (snd built) (nat (encodedLength ?r))
                    (map (enc_GetValue ?r) [0..<nat (encodedLength ?r)])
                    (NumberOfEncodedPoints ?r) (NumberOfEncodedFaces ?r)"
        have "st_gltf (stateOf (encodePrimitive env opts c q l primitive hashValue st)) = stateOf ?a"
          using d i Inr False by (cases ?a) (simp_all add: encodePrimitive_def Let_def)
        then show ?thesis by blast
      qed
    qed
  qed
qed

lemma encodePrimitive_elsewhere:
  assumes frame: "\<And>g l points faces.
      meshes (stateOf (replaceWithDecompressedPrimitive env g l points faces)) = meshes g"
  shows "sameElsewhere l (st_gltf st) (st_gltf (stateOf (encodePrimitive env opts c q l primitive hashValue st)))"
  using encodePrimitive_cases[of env opts c q l primitive hashValue st]
    addCompressionExtensionToPrimitive_elsewhere[OF frame, of l "st_gltf st" primitive]
  by auto

lemma compressPrimitive_elsewhere:
  assumes frame: "\<And>g l points faces.
      meshes (stateOf (replaceWithDecompressedPrimitive env g l points faces)) = meshes g"
  shows "sameElsewhere l (st_gltf st) (st_gltf (stateOf (compressPrimitive env opts c q l st)))"
proof -
  have e: "sameElsewhere l (st_gltf st) (st_gltf (stateOf (encodePrimitive env opts c q l primitive hashValue
             (st\<lparr>addedExtension := True, hashPrimitives := hp\<rparr>))))" for primitive hashValue hp
    using encodePrimitive_elsewhere[OF frame, of l "st\<lparr>addedExtension := True, hashPrimitives := hp\<rparr>"]
    by simp
  show ?thesis
    unfolding compressPrimitive_def
    by (auto split: option.splits outcome.splits simp: Let_def e)
qed

lemma compressPrimitive_ineligible:
  assumes "getPrimitive (st_gltf st) l = Some p" "\<not> eligible p"
  shows "compressPrimitive env opts c q l st = Returned st"
  using assms by (auto simp: compressPrimitive_def eligible_def)






section \<open>Deduplication: claim C3\<close>

lemma removeAttributeBufferViews_keeps_place:
  "getPrimitive g l \<noteq> None \<Longrightarrow> getPrimitive (stateOf (removeAttributeBufferViews rest l g)) l \<noteq> None"
proof (induction rest arbitrary: g)
  case Nil
  then show ?case by simp
next
  case (Cons sa rest)
  obtain semantic accessorId where sa: "sa = (semantic, accessorId)" by (cases sa)
  show ?case
  proof (cases "lookup (accessors g) accessorId")
    case None
    then show ?thesis using Cons.prems by (simp add: sa)
  next
    case (Some a)
    let ?g1 = "updPrimitive (g\<lparr>accessors := accessors g @ [a\<lparr>acc_bufferView := None, acc_byteOffset := None\<rparr>]\<rparr>) l
               (\<lambda>p. p\<lparr>prim_attributes := AList.update semantic (length (accessors g)) (prim_attributes p)\<rparr>)"
    from Cons.prems obtain p where "getPrimitive g l = Some p" by auto
    then have "getPrimitive ?g1 l \<noteq> None"
      by (simp add: getPrimitive_updPrimitive_same)
    then have "getPrimitive (stateOf (removeAttributeBufferViews rest l ?g1)) l \<noteq> None"
      by (rule Cons.IH)
    then show ?thesis
      using Some by (simp add: sa addToArray_def Let_def)
  qed
qed

lemma addCompressionExtensionToPrimitive_extension:
  assumes frame: "\<And>g l points faces.
      meshes (stateOf (replaceWithDecompressedPrimitive env g l points faces)) = meshes g"
    and ret: "addCompressionExtensionToPrimitive env g l primitive attributeToId encodedLen
                encodedData points faces = Returned g'"
    and prim: "getPrimitive g l = Some primitive"
  shows "extensionAt g' l \<noteq> None"
proof -
  from ret obtain a where a: "(case prim_indices primitive of None \<Rightarrow> None
      | Some i \<Rightarrow> lookup (accessors g) i) = Some a"
    by (auto simp: addCompressionExtensionToPrimitive_def split: option.splits)
  let ?g1 = "setPrimitive (g\<lparr>accessors := accessors g @ [a\<lparr>acc_bufferView := None, acc_byteOffset := None\<rparr>]\<rparr>) l
                     (primitive\<lparr>prim_indices := Some (length (accessors g))\<rparr>)"
  from ret a obtain g2 where g2: "removeAttributeBufferViews (prim_attributes primitive) l ?g1 = Returned g2"
    by (auto simp: addCompressionExtensionToPrimitive_def addToArray_def Let_def split: outcome.splits)
  have "getPrimitive ?g1 l \<noteq> None"
    using prim by (simp add: getPrimitive_setPrimitive_same)
  then have "getPrimitive (stateOf (removeAttributeBufferViews (prim_attributes primitive) l ?g1)) l \<noteq> None"
    by (rule removeAttributeBufferViews_keeps_place)
  then obtain p2 where p2: "getPrimitive g2 l = Some p2" using g2 by auto
  let ?f = "\<lambda>p. p\<lparr>prim_extensions :=
              Some ((defaultValue (prim_extensions p) noExtensions)
                      \<lparr>KHR_draco_mesh_compression := Some \<lparr> ext_bufferView = length (bufferViews g2),
                          ext_attributes = attributeToId \<rparr>\<rparr>)\<rparr>"
  let ?g3 = "g2\<lparr>buffers := buffers g2 @ [\<lparr> buf_byteLength = encodedLen, buf_source = Some encodedData \<rparr>],
               bufferViews := bufferViews g2 @ [\<lparr> bv_buffer = length (buffers g2),
                  bv_byteOffset = Some 0, bv_byteLength = encodedLen \<rparr>]\<rparr>"
  let ?g4 = "updPrimitive ?g3 l ?f"
  have run: "replaceWithDecompressedPrimitive env ?g4 l points faces = Returned g'"
    using ret a g2 by (simp add: addCompressionExtensionToPrimitive_def addToArray_def Let_def)
  have "getPrimitive ?g3 l = Some p2" using p2 by simp
  then have "getPrimitive ?g4 l = Some (?f p2)" by (rule getPrimitive_updPrimitive_same)
  moreover have "meshes g' = meshes ?g4" using frame[of ?g4 l points faces] run by simp
  ultimately have "getPrimitive g' l = Some (?f p2)" by (simp add: getPrimitive_def)
  then show ?thesis by (simp add: extensionAt_def dracoExtensionOf_def)
qed

lemma encodePrimitive_Returned:
  assumes frame: "\<And>g l points faces.
      meshes (stateOf (replaceWithDecompressedPrimitive env g l points faces)) = meshes g"
    and ret: "encodePrimitive env opts c q l primitive hashValue st = Returned st'"
    and prim: "getPrimitive (st_gltf st) l = Some primitive"
  shows "extensionAt (st_gltf st') l \<noteq> None \<and> hashPrimitives st' = hashPrimitives st
         \<and> encodeLog st' = encodeLog st @ [hashValue]"
proof -
  from ret obtain d where d: "opt_dracoOptions opts = Some d"
    by (auto simp: encodePrimitive_def split: option.splits)
  from ret d obtain indicesData where i: "readAccessorPacked env (st_gltf st)
                  (case prim_indices primitive of None \<Rightarrow> None
                   | Some i \<Rightarrow> lookup (accessors (st_gltf st)) i) = Inr indicesData"
    by (auto simp: encodePrimitive_def split: sum.splits)
  from ret d i obtain built where b: "addAttributesToMesh env (st_gltf st) (prim_attributes primitive)
             (AddFacesToMesh env (newMesh env) (Fin (real (length (map ToUint32 indicesData)) / 3))
                (map ToUint32 indicesData)) [] = Inr built"
    by (auto simp: encodePrimitive_def Let_def split: sum.splits)
  let ?r = "EncodeMeshToDracoBuffer env (encoderCalls c q (defined (prim_targets primitive))) (fst built)"
  let ?a = "addCompressionExtensionToPrimitive env (st_gltf st) l primitive
                    (snd built) (nat (encodedLength ?r))
                    (map (enc_GetValue ?r) [0..<nat (encodedLength ?r)])
                    (NumberOfEncodedPoints ?r) (NumberOfEncodedFaces ?r)"
  from ret d i b have pos: "\<not> encodedLength ?r \<le> 0"
    by (auto simp: encodePrimitive_def Let_def split: if_splits)
  from ret d i b pos obtain g' where g': "?a = Returned g'"
    "st' = st\<lparr>encodeLog := encodeLog st @ [hashValue], st_gltf := g'\<rparr>"
    by (cases ?a) (auto simp: encodePrimitive_def Let_def)
  from addCompressionExtensionToPrimitive_extension[OF frame g'(1) prim] g'(2)
  show ?thesis by simp
qed

lemma copyCompressedExtensionToPrimitive_Returned:
  assumes "copyCompressedExtensionToPrimitive primitive compressedPrimitive = Returned p'"
  shows "dracoExtensionOf p' = dracoExtensionOf compressedPrimitive \<and> dracoExtensionOf p' \<noteq> None"
  using assms
  by (auto simp: copyCompressedExtensionToPrimitive_def dracoExtensionOf_def Let_def
           split: option.splits)

lemma compressPrimitive_Returned_cases:
  assumes frame: "\<And>g l points faces.
      meshes (stateOf (replaceWithDecompressedPrimitive env g l points faces)) = meshes g"
    and ret: "compressPrimitive env opts c q l st = Returned st'"
  obtains primitive where "getPrimitive (st_gltf st) l = Some primitive" "\<not> eligible primitive" "st' = st"
  | primitive l0 cp where "getPrimitive (st_gltf st) l = Some primitive" "eligible primitive"
      "hashPrimitives st (hashObject env (primitiveGeometryOf primitive)) = Some l0"
      "getPrimitive (st_gltf st) l0 = Some cp"
      "extensionAt (st_gltf st') l = dracoExtensionOf cp" "dracoExtensionOf cp \<noteq> None"
      "hashPrimitives st' = hashPrimitives st" "encodeLog st' = encodeLog st"
  | primitive where "getPrimitive (st_gltf st) l = Some primitive" "eligible primitive"
      "hashPrimitives st (hashObject env (primitiveGeometryOf primitive)) = None"
      "extensionAt (st_gltf st') l \<noteq> None"
      "hashPrimitives st' = (hashPrimitives st)(hashObject env (primitiveGeometryOf primitive) \<mapsto> l)"
      "encodeLog st' = encodeLog st @ [hashObject env (primitiveGeometryOf primitive)]"
proof -
  from ret obtain primitive where prim: "getPrimitive (st_gltf st) l = Some primitive"
    by (auto simp: compressPrimitive_def split: option.splits)
  let ?h = "hashObject env (primitiveGeometryOf primitive)"
  show ?thesis
  proof (cases "eligible primitive")
    case False
    with prim ret have "st' = st" by (simp add: compressPrimitive_ineligible)
    with prim False show ?thesis by (rule that(1))
  next
    case True
    then have el: "\<not> (defined (prim_mode primitive) \<and> prim_mode primitive \<noteq> Some TRIANGLES)"
      "defined (prim_indices primitive)" by (simp_all add: eligible_def)
    show ?thesis
    proof (cases "hashPrimitives st ?h")
      case None
      let ?st2 = "st\<lparr>addedExtension := True, hashPrimitives := (hashPrimitives st)(?h \<mapsto> l)\<rparr>"
      have enc: "encodePrimitive env opts c q l primitive ?h ?st2 = Returned st'"
        using ret prim el None by (simp add: compressPrimitive_def Let_def)
      have "getPrimitive (st_gltf ?st2) l = Some primitive" using prim by simp
      from encodePrimitive_Returned[OF frame enc this]
      have "extensionAt (st_gltf st') l \<noteq> None"
        "hashPrimitives st' = (hashPrimitives st)(?h \<mapsto> l)"
        "encodeLog st' = encodeLog st @ [?h]" by simp_all
      with prim True None show ?thesis by (rule that(3))
    next
      case (Some l0)
      from ret prim el Some obtain cp where cp: "getPrimitive (st_gltf st) l0 = Some cp"
        by (auto simp: compressPrimitive_def Let_def split: option.splits)
      from ret prim el Some cp obtain p' where p':
        "copyCompressedExtensionToPrimitive primitive cp = Returned p'"
        "st' = st\<lparr>addedExtension := True, st_gltf := setPrimitive (st_gltf st) l p'\<rparr>"
        by (cases "copyCompressedExtensionToPrimitive primitive cp")
           (auto simp: compressPrimitive_def Let_def)
      have "getPrimitive (st_gltf st') l = Some p'"
        using prim p'(2) by (simp add: getPrimitive_setPrimitive_same)
      then have "extensionAt (st_gltf st') l = dracoExtensionOf cp" "dracoExtensionOf cp \<noteq> None"
        using copyCompressedExtensionToPrimitive_Returned[OF p'(1)] by (metis extensionAt_def option.simps(5))+
      moreover have "hashPrimitives st' = hashPrimitives st" "encodeLog st' = encodeLog st"
        using p'(2) by simp_all
      ultimately show ?thesis using prim True Some cp by (intro that(2))
    qed
  qed
qed

lemma extensionAt_elsewhere:
  "sameElsewhere l g g' \<Longrightarrow> l' \<noteq> l \<Longrightarrow> extensionAt g' l' = extensionAt g l'"
  by (simp add: sameElsewhereD extensionAt_def)

lemma compressPrimitive_dedupInv:
  assumes frame: "\<And>g l points faces.
      meshes (stateOf (replaceWithDecompressedPrimitive env g l points faces)) = meshes g"
    and inv: "dedupInv env g0 D st" and new: "l \<notin> D"
    and ret: "compressPrimitive env opts c q l st = Returned st'"
  shows "dedupInv env g0 (insert l D) st'"
proof -
  from inv have
    a: "shape (st_gltf st) = shape g0" and
    b: "\<And>l'. l' \<notin> D \<Longrightarrow> getPrimitive (st_gltf st) l' = getPrimitive g0 l'" and
    c: "\<And>h l0. hashPrimitives st h = Some l0 \<Longrightarrow> l0 \<in> D \<and> extensionAt (st_gltf st) l0 \<noteq> None" and
    d: "\<And>l' p. l' \<in> D \<Longrightarrow> getPrimitive g0 l' = Some p \<Longrightarrow> eligible p \<Longrightarrow>
            \<exists>l0. hashPrimitives st (hashObject env (primitiveGeometryOf p)) = Some l0
                 \<and> extensionAt (st_gltf st) l' = extensionAt (st_gltf st) l0" and
    e: "\<And>h. count_list (encodeLog st) h = (if hashPrimitives st h = None then 0 else 1)"
    unfolding dedupInv_def by blast+
  have els: "sameElsewhere l (st_gltf st) (st_gltf st')"
    using compressPrimitive_elsewhere[OF frame, of l st opts c q] ret by simp
  then have a': "shape (st_gltf st') = shape g0" using a by (simp add: sameElsewhere_def)
  have other: "getPrimitive (st_gltf st') l' = getPrimitive (st_gltf st) l'" if "l' \<noteq> l" for l'
    using els that by (rule sameElsewhereD)
  have xother: "extensionAt (st_gltf st') l' = extensionAt (st_gltf st) l'" if "l' \<noteq> l" for l'
    using els that by (rule extensionAt_elsewhere)
  have b': "getPrimitive (st_gltf st') l' = getPrimitive g0 l'" if "l' \<notin> insert l D" for l'
    using that other[of l'] b[of l'] by simp
  from frame ret show ?thesis
  proof (cases rule: compressPrimitive_Returned_cases)
    case (1 primitive)
    have g0l: "getPrimitive g0 l = Some primitive" using b[OF new] 1(1) by simp
    show ?thesis
      unfolding dedupInv_def
    proof (intro conjI allI impI ballI)
      show "shape (st_gltf st') = shape g0" by (rule a')
      show "getPrimitive (st_gltf st') l' = getPrimitive g0 l'" if "l' \<notin> insert l D" for l'
        using that by (rule b')
      show "l0 \<in> insert l D" if "hashPrimitives st' h = Some l0" for h l0
        using that c[of h l0] 1(3) by simp
      show "extensionAt (st_gltf st') l0 \<noteq> None" if "hashPrimitives st' h = Some l0" for h l0
        using that c[of h l0] 1(3) by simp
      show "\<exists>l0. hashPrimitives st' (hashObject env (primitiveGeometryOf p)) = Some l0
                 \<and> extensionAt (st_gltf st') l' = extensionAt (st_gltf st') l0"
        if "l' \<in> insert l D" "getPrimitive g0 l' = Some p" "eligible p" for l' p
      proof (cases "l' = l")
        case True
        with that g0l 1(2) show ?thesis by simp
      next
        case False
        with that d[of l' p] 1(3) show ?thesis by simp
      qed
      show "count_list (encodeLog st') h = (if hashPrimitives st' h = None then 0 else 1)" for h
        using e[of h] 1(3) by simp
    qed
  next
    case (2 primitive l0 cp)
    have g0l: "getPrimitive g0 l = Some primitive" using b[OF new] 2(1) by simp
    have l0D: "l0 \<in> D" using c[OF 2(3)] by simp
    then have l0l: "l0 \<noteq> l" using new by auto
    have xl: "extensionAt (st_gltf st') l = extensionAt (st_gltf st') l0"
      using 2(4,5) xother[OF l0l] by (simp add: extensionAt_def)
    show ?thesis
      unfolding dedupInv_def
    proof (intro conjI allI impI ballI)
      show "shape (st_gltf st') = shape g0" by (rule a')
      show "getPrimitive (st_gltf st') l' = getPrimitive g0 l'" if "l' \<notin> insert l D" for l'
        using that by (rule b')
      show "l1 \<in> insert l D" if "hashPrimitives st' h = Some l1" for h l1
        using that c[of h l1] 2(7) by simp
      show "extensionAt (st_gltf st') l1 \<noteq> None" if "hashPrimitives st' h = Some l1" for h l1
      proof -
        from that 2(7) have "l1 \<in> D" "extensionAt (st_gltf st) l1 \<noteq> None" using c[of h l1] by simp_all
        then show ?thesis using xother[of l1] new by metis
      qed
      show "\<exists>l1. hashPrimitives st' (hashObject env (primitiveGeometryOf p)) = Some l1
                 \<and> extensionAt (st_gltf st') l' = extensionAt (st_gltf st') l1"
        if "l' \<in> insert l D" "getPrimitive g0 l' = Some p" "eligible p" for l' p
      proof (cases "l' = l")
        case True
        with that g0l have "p = primitive" by simp
        with True 2(3,7) xl show ?thesis by simp
      next
        case False
        with that have "l' \<in> D" by simp
        from d[OF this that(2,3)] obtain l1 where l1:
          "hashPrimitives st (hashObject env (primitiveGeometryOf p)) = Some l1"
          "extensionAt (st_gltf st) l' = extensionAt (st_gltf st) l1" by blast
        have "l1 \<in> D" using c[OF l1(1)] by simp
        then have "l1 \<noteq> l" using new by auto
        with l1 False 2(7) xother[of l'] xother[of l1] show ?thesis by simp
      qed
      show "count_list (encodeLog st') h = (if hashPrimitives st' h = None then 0 else 1)" for h
        using e[of h] 2(7,8) by simp
    qed
  next
    case (3 primitive)
    let ?h = "hashObject env (primitiveGeometryOf primitive)"
    have g0l: "getPrimitive g0 l = Some primitive" using b[OF new] 3(1) by simp
    show ?thesis
      unfolding dedupInv_def
    proof (intro conjI allI impI ballI)
      show "shape (st_gltf st') = shape g0" by (rule a')
      show "getPrimitive (st_gltf st') l' = getPrimitive g0 l'" if "l' \<notin> insert l D" for l'
        using that by (rule b')
      show "l1 \<in> insert l D" if "hashPrimitives st' h = Some l1" for h l1
        using that c[of h l1] 3(5) by (auto split: if_splits)
      show "extensionAt (st_gltf st') l1 \<noteq> None" if "hashPrimitives st' h = Some l1" for h l1
      proof (cases "l1 = l")
        case True
        then show ?thesis using 3(4) by simp
      next
        case False
        with that 3(5) have "hashPrimitives st h = Some l1" by (auto split: if_splits)
        from c[OF this] False xother[of l1] show ?thesis by simp
      qed
      show "\<exists>l1. hashPrimitives st' (hashObject env (primitiveGeometryOf p)) = Some l1
                 \<and> extensionAt (st_gltf st') l' = extensionAt (st_gltf st') l1"
        if "l' \<in> insert l D" "getPrimitive g0 l' = Some p" "eligible p" for l' p
      proof (cases "l' = l")
        case True
        with that g0l have "p = primitive" by simp
        with True 3(5) show ?thesis by simp
      next
        case False
        with that have "l' \<in> D" by simp
        from d[OF this that(2,3)] obtain l1 where l1:
          "hashPrimitives st (hashObject env (primitiveGeometryOf p)) = Some l1"
          "extensionAt (st_gltf st) l' = extensionAt (st_gltf st) l1" by blast
        have "l1 \<in> D" using c[OF l1(1)] by simp
        then have "l1 \<noteq> l" using new by auto
        have "hashObject env (primitiveGeometryOf p) \<noteq> ?h" using l1(1) 3(3) by auto
        with l1 False 3(5) \<open>l1 \<noteq> l\<close> xother[of l'] xother[of l1] show ?thesis by simp
      qed
      show "count_list (encodeLog st') h = (if hashPrimitives st' h = None then 0 else 1)" for h
        using e[of h] e[of ?h] 3(3,5,6) by simp
    qed
  qed
qed

lemma dedupInv_extend:
  assumes "dedupInv env g0 D st" "D \<subseteq> D'" "\<And>l. l \<in> D' \<Longrightarrow> l \<notin> D \<Longrightarrow> getPrimitive g0 l = None"
  shows "dedupInv env g0 D' st"
proof -
  from assms(1) have
    a: "shape (st_gltf st) = shape g0" and
    b: "\<And>l'. l' \<notin> D \<Longrightarrow> getPrimitive (st_gltf st) l' = getPrimitive g0 l'" and
    c: "\<And>h l0. hashPrimitives st h = Some l0 \<Longrightarrow> l0 \<in> D \<and> extensionAt (st_gltf st) l0 \<noteq> None" and
    d: "\<And>l' p. l' \<in> D \<Longrightarrow> getPrimitive g0 l' = Some p \<Longrightarrow> eligible p \<Longrightarrow>
            \<exists>l0. hashPrimitives st (hashObject env (primitiveGeometryOf p)) = Some l0
                 \<and> extensionAt (st_gltf st) l' = extensionAt (st_gltf st) l0" and
    e: "\<And>h. count_list (encodeLog st) h = (if hashPrimitives st h = None then 0 else 1)"
    unfolding dedupInv_def by blast+
  show ?thesis
    unfolding dedupInv_def
  proof (intro conjI allI impI ballI)
    show "shape (st_gltf st) = shape g0" by (rule a)
    show "getPrimitive (st_gltf st) l' = getPrimitive g0 l'" if "l' \<notin> D'" for l'
      using that assms(2) by (intro b) auto
    show "l0 \<in> D'" if "hashPrimitives st h = Some l0" for h l0
      using c[OF that] assms(2) by auto
    show "extensionAt (st_gltf st) l0 \<noteq> None" if "hashPrimitives st h = Some l0" for h l0
      using c[OF that] by simp
    show "\<exists>l0. hashPrimitives st (hashObject env (primitiveGeometryOf p)) = Some l0
                 \<and> extensionAt (st_gltf st) l' = extensionAt (st_gltf st) l0"
      if "l' \<in> D'" "getPrimitive g0 l' = Some p" "eligible p" for l' p
    proof (cases "l' \<in> D")
      case True
      from d[OF this that(2,3)] show ?thesis .
    next
      case False
      from assms(3)[OF that(1) this] that(2) show ?thesis by simp
    qed
    show "count_list (encodeLog st) h = (if hashPrimitives st h = None then 0 else 1)" for h
      by (rule e)
  qed
qed

lemma compressMesh_dedupInv:
  assumes frame: "\<And>g l points faces.
      meshes (stateOf (replaceWithDecompressedPrimitive env g l points faces)) = meshes g"
    and inv: "dedupInv env g0 {l. fst l \<in> Dm} st" and new: "mi \<notin> Dm"
    and ret: "compressMesh env opts c q mi st = Returned st'"
  shows "dedupInv env g0 {l. fst l \<in> insert mi Dm} st'"
proof -
  from ret obtain m where m: "lookup (meshes (st_gltf st)) mi = Some m"
    by (auto simp: compressMesh_def split: option.splits)
  let ?n = "length (mesh_primitives m)"
  from ret m have loop: "forEach (\<lambda>pi. compressPrimitive env opts c q (mi, pi)) [0..<?n] st = Returned st'"
    by (auto simp: compressMesh_def split: outcome.splits option.splits)
  let ?I = "\<lambda>Dp s. dedupInv env g0 ({l. fst l \<in> Dm} \<union> Pair mi ` Dp) s"
  have "?I ({} \<union> set [0..<?n]) st'"
  proof (rule forEach_set_invariant[where I = ?I, OF loop])
    show "?I {} st" using inv by simp
    show "distinct [0..<?n]" by simp
    show "set [0..<?n] \<inter> {} = {}" by simp
  next
    fix D' x s1 s2
    assume I: "?I D' s1" and x: "x \<notin> D'" and r: "compressPrimitive env opts c q (mi, x) s1 = Returned s2"
    have "(mi, x) \<notin> {l. fst l \<in> Dm} \<union> Pair mi ` D'" using new x by auto
    from compressPrimitive_dedupInv[OF frame I this r]
    show "?I (insert x D') s2" by simp
  qed
  then have 1: "dedupInv env g0 ({l. fst l \<in> Dm} \<union> Pair mi ` {0..<?n}) st'" by simp
  have sh: "shape (st_gltf st) = shape g0" using inv by (simp add: dedupInv_def)
  have mi: "mi < length (meshes (st_gltf st))" "meshes (st_gltf st) ! mi = m"
    using m by (simp_all add: lookup_Some_iff)
  have "mi < length (shape (st_gltf st))" "shape (st_gltf st) ! mi = ?n"
    using mi by (simp_all add: shape_def)
  then have n: "mi < length (shape g0)" "shape g0 ! mi = ?n"
    unfolding sh by simp_all
  show ?thesis
  proof (rule dedupInv_extend[OF 1])
    show "{l. fst l \<in> Dm} \<union> Pair mi ` {0..<?n} \<subseteq> {l. fst l \<in> insert mi Dm}" by auto
  next
    fix l assume "l \<in> {l. fst l \<in> insert mi Dm}" "l \<notin> {l. fst l \<in> Dm} \<union> Pair mi ` {0..<?n}"
    then have "fst l = mi" "\<not> snd l < ?n" by (cases l; force)+
    then show "getPrimitive g0 l = None" using n by (simp add: getPrimitive_None_shape)
  qed
qed

lemma dedupInv_initialState: "dedupInv env g {} (initialState g)"
  by (simp add: dedupInv_def initialState_def)

lemma compressMeshes_dedupInv:
  assumes frame: "\<And>g l points faces.
      meshes (stateOf (replaceWithDecompressedPrimitive env g l points faces)) = meshes g"
    and ret: "compressMeshes env opts c q (initialState g) = Returned s"
  shows "dedupInv env g {l. fst l < length (meshes g)} s"
proof -
  let ?I = "\<lambda>Dm s. dedupInv env g {l. fst l \<in> Dm} s"
  have loop: "forEach (compressMesh env opts c q) [0..<length (meshes g)] (initialState g) = Returned s"
    using ret by (simp add: compressMeshes_def initialState_def)
  have "?I ({} \<union> set [0..<length (meshes g)]) s"
  proof (rule forEach_set_invariant[where I = ?I, OF loop])
    show "?I {} (initialState g)" using dedupInv_initialState[of env g] by simp
    show "distinct [0..<length (meshes g)]" by simp
    show "set [0..<length (meshes g)] \<inter> {} = {}" by simp
  next
    fix D' x s1 s2
    assume "?I D' s1" "x \<notin> D'" "compressMesh env opts c q x s1 = Returned s2"
    then show "?I (insert x D') s2" by (rule compressMesh_dedupInv[OF frame])
  qed
  then show ?thesis by simp
qed


text \<open>
  Claim C3: when the mesh loop of the compress pass returns, any two eligible primitives
  of the asset it started from whose attributes, indices and mode are identical carry the
  same compression record (the same bufferView and the same mapping from semantic to
  attribute id), and the codec's encode operation was called exactly once for their
  fingerprint. \<open>replaceWithDecompressedPrimitive\<close>, which is not under src/, is assumed to
  leave the meshes of the asset alone.
\<close>

theorem dedup_shares_extension:
  assumes frame: "\<And>g l points faces.
      meshes (stateOf (replaceWithDecompressedPrimitive env g l points faces)) = meshes g"
    and ret: "compressMeshes env opts c q (initialState g) = Returned s"
    and p1: "getPrimitive g l1 = Some p1" and p2: "getPrimitive g l2 = Some p2"
    and el: "eligible p1" "eligible p2"
    and same: "primitiveGeometryOf p1 = primitiveGeometryOf p2"
  shows "\<exists>d. extensionAt (st_gltf s) l1 = Some d \<and> extensionAt (st_gltf s) l2 = Some d
            \<and> count_list (encodeLog s) (hashObject env (primitiveGeometryOf p1)) = 1"
proof -
  let ?D = "{l. fst l < length (meshes g)}"
  let ?h = "hashObject env (primitiveGeometryOf p1)"
  have inv: "dedupInv env g ?D s" using frame ret by (rule compressMeshes_dedupInv)
  have in1: "l1 \<in> ?D" "l2 \<in> ?D"
    using p1 p2 by (auto simp: getPrimitive_Some_iff)
  from inv in1(1) p1 el(1) obtain l0 where l0: "hashPrimitives s ?h = Some l0"
    "extensionAt (st_gltf s) l1 = extensionAt (st_gltf s) l0"
    unfolding dedupInv_def by blast
  from inv in1(2) p2 el(2) obtain l0' where l0': "hashPrimitives s (hashObject env (primitiveGeometryOf p2)) = Some l0'"
    "extensionAt (st_gltf s) l2 = extensionAt (st_gltf s) l0'"
    unfolding dedupInv_def by blast
  from l0(1) l0'(1) same have eq: "l0' = l0" by simp
  from inv l0(1) have "extensionAt (st_gltf s) l0 \<noteq> None"
    unfolding dedupInv_def by blast
  then obtain d where d: "extensionAt (st_gltf s) l0 = Some d" by auto
  from inv have "count_list (encodeLog s) ?h = (if hashPrimitives s ?h = None then 0 else 1)"
    unfolding dedupInv_def by blast
  with l0 l0' eq d show ?thesis by simp
qed

theorem dedup_shares_extension_witness:
  "\<exists>s. compressMeshes exampleEnv (exampleOptions (Fin 7)) defaults noQuantization
           (initialState mixedAsset) = Returned s
       \<and> getPrimitive mixedAsset (0, 0) = Some (trianglePrimitive 0 1)
       \<and> getPrimitive mixedAsset (0, 2) = Some (trianglePrimitive 0 1)
       \<and> eligible (trianglePrimitive 0 1)
       \<and> (\<exists>d. extensionAt (st_gltf s) (0, 0) = Some d \<and> extensionAt (st_gltf s) (0, 2) = Some d
              \<and> count_list (encodeLog s)
                   (hashObject exampleEnv (primitiveGeometryOf (trianglePrimitive 0 1))) = 1)"
proof -
  obtain s where s: "compressMeshes exampleEnv (exampleOptions (Fin 7)) defaults noQuantization
           (initialState mixedAsset) = Returned s"
    using run_example
    by (cases "compressMeshes exampleEnv (exampleOptions (Fin 7)) defaults noQuantization
           (initialState mixedAsset)") auto
  have p1: "getPrimitive mixedAsset (0, 0) = Some (trianglePrimitive 0 1)"
    and p2: "getPrimitive mixedAsset (0, 2) = Some (trianglePrimitive 0 1)"
    by (simp_all add: getPrimitive_def lookup_def mixedAsset_def)
  have el: "eligible (trianglePrimitive 0 1)"
    by (simp add: eligible_def trianglePrimitive_def defined_def TRIANGLES_def)
  from dedup_shares_extension [OF exampleEnv_frame s p1 p2 el el refl] s p1 p2 el show ?thesis by blast
qed


section \<open>Mode filtering in the decompress pass: claim C10\<close>

lemma addBufferToGltf_meshes [simp]: "meshes (fst (addBufferToGltf g bytes)) = meshes g"
  by (simp add: addBufferToGltf_def Let_def addToArray_def)











section \<open>Decoded attributes: claim C9\<close>











section \<open>Conflicting samplers: claim C8\<close>

lemma map_of_insort_key:
  "map_of xs k = None \<Longrightarrow> map_of (insort_key fst (k, v) xs) = (map_of xs)(k \<mapsto> v)"
proof (induction xs)
  case Nil
  then show ?case by simp
next
  case (Cons p xs)
  obtain k' v' where p: "p = (k', v')" by (cases p)
  from Cons.prems have ne: "k' \<noteq> k" and none: "map_of xs k = None"
    by (auto simp: p split: if_splits)
  show ?case using Cons.IH[OF none] ne by (auto simp: p fun_upd_twist)
qed

lemma extends_refl: "extends ex ex"
  by (auto simp: extends_def)

lemma extends_trans: "extends a b \<Longrightarrow> extends b c \<Longrightarrow> extends a c"
  unfolding extends_def by (meson subset_trans)

lemma extractedFrom_extends: "extractedFrom s ex \<Longrightarrow> extends ex ex' \<Longrightarrow> extractedFrom s ex'"
  unfolding extractedFrom_def extends_def by blast

lemma extractSampler_Inr:
  assumes "extractSampler s st = Inr st'"
  shows "extends (fst st) (fst st') \<and> extractedFrom s (fst st') \<and> snd st' = snd st + 1"
proof -
  from assms obtain i where i: "smp_input s = Some i"
    by (cases "smp_input s") (auto simp: extractSampler_def)
  from assms i obtain out where o: "smp_output s = Some out"
    by (cases "smp_output s") (auto simp: extractSampler_def)
  from assms i o have d: "defined (smp_interpolation s)"
    by (auto simp: extractSampler_def split: if_splits)
  show ?thesis
  proof (cases "map_of (fst st) i")
    case None
    let ?new = "\<lparr> ca_input = i, ca_outputs = [out], ca_attributesId = [], ca_bufferView = None \<rparr>"
    from assms i o d None have st': "st' = (insort_key fst (i, ?new) (fst st), snd st + 1)"
      by (simp add: extractSampler_def)
    have m: "map_of (fst st') = (map_of (fst st))(i \<mapsto> ?new)"
      by (simp add: st' map_of_insort_key[OF None])
    have "extends (fst st) (fst st')"
      unfolding extends_def using None by (auto simp: m)
    moreover have "extractedFrom s (fst st')"
      unfolding extractedFrom_def using i o by (simp add: m)
    ultimately show ?thesis by (simp add: st')
  next
    case (Some e)
    from assms i o d Some have st':
      "st' = (AList.map_entry i (\<lambda>e. e\<lparr>ca_outputs := ca_outputs e @ [out]\<rparr>) (fst st), snd st + 1)"
      by (simp add: extractSampler_def)
    have m: "map_of (fst st') = (map_of (fst st))(i \<mapsto> e\<lparr>ca_outputs := ca_outputs e @ [out]\<rparr>)"
      by (simp add: st' map_of_map_entry Some)
    have "extends (fst st) (fst st')"
      unfolding extends_def using Some by (auto simp: m)
    moreover have "extractedFrom s (fst st')"
      unfolding extractedFrom_def using i o by (simp add: m)
    ultimately show ?thesis by (simp add: st')
  qed
qed

lemma extractSamplers_Inr:
  assumes "extractSamplers ss st = Inr st'"
  shows "extends (fst st) (fst st') \<and> (\<forall>s \<in> set ss. extractedFrom s (fst st'))
       \<and> snd st' = snd st + length ss"
  using assms
proof (induction ss arbitrary: st)
  case Nil
  then show ?case by (simp add: extends_refl)
next
  case (Cons s ss)
  from Cons.prems obtain st1 where s1: "extractSampler s st = Inr st1"
    and rest: "extractSamplers ss st1 = Inr st'"
    by (cases "extractSampler s st") auto
  from extractSampler_Inr[OF s1] have a: "extends (fst st) (fst st1)" "extractedFrom s (fst st1)"
    "snd st1 = snd st + 1" by simp_all
  from Cons.IH[OF rest] have b: "extends (fst st1) (fst st')"
    "\<forall>s \<in> set ss. extractedFrom s (fst st')" "snd st' = snd st1 + length ss" by simp_all
  from a b show ?case
    by (auto intro: extends_trans extractedFrom_extends)
qed

lemma encodeAnimation_signature:
  assumes "encodeAnimation env tq kq g ie = Inr r"
  shows "ca_outputs (snd r) = ca_outputs (snd ie)"
  using assms unfolding encodeAnimation_def addCompressedAnimation_def
  by (auto simp: Let_def split: sum.splits if_splits)

lemma encodeAnimations_signature:
  assumes "encodeAnimations env tq kq xs st = Returned st'"
  shows "map signature (snd st') = map signature (snd st) @ map signature xs"
  using assms
proof (induction xs arbitrary: st)
  case Nil
  then show ?case by simp
next
  case (Cons ie xs)
  from Cons.prems obtain r where r: "encodeAnimation env tq kq (fst st) ie = Inr r"
    and rest: "encodeAnimations env tq kq xs (fst r, snd st @ [(fst ie, snd r)]) = Returned st'"
    by (cases "encodeAnimation env tq kq (fst st) ie") auto
  from Cons.IH[OF rest] encodeAnimation_signature[OF r] show ?case
    by (simp add: signature_def)
qed

lemma replaceOutputs_Returned:
  assumes "replaceOutputs outs (g, R, acc) = Returned st'"
  shows "distinct outs \<and> (\<forall>output \<in> set outs. R output = None)
       \<and> dom (fst (snd st')) = dom R \<union> set outs"
  using assms
proof (induction outs arbitrary: g R acc)
  case Nil
  then show ?case by auto
next
  case (Cons out rest)
  from Cons.prems have none: "R out = None"
    by (auto split: if_splits)
  from Cons.prems none obtain r where
    rest: "replaceOutputs rest (fst r, R(out \<mapsto> snd r), acc @ [snd r]) = Returned st'"
    by (cases "removeDataAndReplaceAccessor g out") auto
  from Cons.IH[OF rest] have IH: "distinct rest"
    "\<forall>x \<in> set rest. (R(out \<mapsto> snd r)) x = None"
    "dom (fst (snd st')) = dom (R(out \<mapsto> snd r)) \<union> set rest" by blast+
  from IH(2) have "out \<notin> set rest" "\<forall>x \<in> set rest. R x = None"
    by (auto split: if_splits)
  with IH(1,3) none show ?case by auto
qed

lemma removeAllSamplerAccessorData_Returned:
  assumes "removeAllSamplerAccessorData xs (g, R, acc) = Returned st'"
  shows "distinct (replacedIds (map signature xs))
       \<and> (\<forall>x \<in> set (replacedIds (map signature xs)). R x = None)"
  using assms
proof (induction xs arbitrary: g R acc)
  case Nil
  then show ?case by (simp add: replacedIds_def)
next
  case (Cons ie rest)
  from Cons.prems have none: "R (fst ie) = None"
    by (auto split: if_splits)
  from Cons.prems none obtain r where r: "removeDataAndReplaceAccessor g (fst ie) = Inr r"
    by (cases "removeDataAndReplaceAccessor g (fst ie)") auto
  from Cons.prems none r obtain st1 where
    outs: "replaceOutputs (ca_outputs (snd ie)) (fst r, R(fst ie \<mapsto> snd r), []) = Returned st1"
    by (cases "replaceOutputs (ca_outputs (snd ie)) (fst r, R(fst ie \<mapsto> snd r), [])") auto
  from Cons.prems none r outs have rest:
    "removeAllSamplerAccessorData rest (fst st1, fst (snd st1),
        acc @ [(fst ie, (snd ie)\<lparr>ca_input := snd r, ca_outputs := snd (snd st1)\<rparr>)]) = Returned st'"
    by simp
  from replaceOutputs_Returned[OF outs] have o: "distinct (ca_outputs (snd ie))"
    "\<forall>x \<in> set (ca_outputs (snd ie)). (R(fst ie \<mapsto> snd r)) x = None"
    "dom (fst (snd st1)) = dom (R(fst ie \<mapsto> snd r)) \<union> set (ca_outputs (snd ie))" by blast+
  from o(2) have o2: "fst ie \<notin> set (ca_outputs (snd ie))" "\<forall>x \<in> set (ca_outputs (snd ie)). R x = None"
    by (auto split: if_splits)
  from Cons.IH[OF rest] have IH: "distinct (replacedIds (map signature rest))"
    "\<forall>x \<in> set (replacedIds (map signature rest)). fst (snd st1) x = None" by simp_all
  have fresh: "x \<noteq> fst ie \<and> x \<notin> set (ca_outputs (snd ie)) \<and> R x = None"
    if "x \<in> set (replacedIds (map signature rest))" for x
  proof -
    from IH(2) that have "x \<notin> dom (fst (snd st1))" by (simp add: domIff)
    then show ?thesis unfolding o(3) by (auto simp: domIff)
  qed
  have eq: "replacedIds (map signature (ie # rest)) =
      fst ie # ca_outputs (snd ie) @ replacedIds (map signature rest)"
    by (simp add: replacedIds_def signature_def)
  show ?case unfolding eq using none o(1) o2 IH(1) fresh by auto
qed

lemma replacedIds_shared:
  assumes "a \<in> set sigs" "b \<in> set sigs" "a \<noteq> b" "x \<in> set (fst a # snd a)" "x \<in> set (fst b # snd b)"
  shows "\<not> distinct (replacedIds sigs)"
proof -
  from assms(1) obtain ys zs where sp: "sigs = ys @ a # zs" by (auto dest: split_list)
  with assms(2,3) have "b \<in> set ys \<or> b \<in> set zs" by auto
  then show ?thesis
  proof
    assume "b \<in> set ys"
    then have "x \<in> set (replacedIds ys)" using assms(5) unfolding replacedIds_def by force
    moreover have "x \<in> set (replacedIds (a # zs))" using assms(4) unfolding replacedIds_def by force
    moreover have "replacedIds sigs = replacedIds ys @ replacedIds (a # zs)"
      by (simp add: sp replacedIds_def)
    ultimately show ?thesis by auto
  next
    assume "b \<in> set zs"
    then have "x \<in> set (replacedIds zs)" using assms(5) unfolding replacedIds_def by force
    moreover have "replacedIds sigs = replacedIds ys @ (fst a # snd a) @ replacedIds zs"
      by (simp add: sp replacedIds_def)
    ultimately show ?thesis using assms(4) by auto
  qed
qed

lemma replacedIds_own:
  assumes "a \<in> set sigs" "fst a \<in> set (snd a)"
  shows "\<not> distinct (replacedIds sigs)"
proof -
  from assms(1) obtain ys zs where sp: "sigs = ys @ a # zs" by (auto dest: split_list)
  have "replacedIds sigs = replacedIds ys @ (fst a # snd a) @ replacedIds zs"
    by (simp add: sp replacedIds_def)
  then show ?thesis using assms(2) by auto
qed

lemma conflicting_not_distinct:
  assumes "extractedFrom s1 ex" "extractedFrom s2 ex" "conflicting s1 s2"
  shows "\<not> distinct (replacedIds (map signature ex))"
proof -
  from assms(1) obtain i1 o1 e1 where s1: "smp_input s1 = Some i1" "smp_output s1 = Some o1"
    "map_of ex i1 = Some e1" "o1 \<in> set (ca_outputs e1)" unfolding extractedFrom_def by blast
  from assms(2) obtain i2 o2 e2 where s2: "smp_input s2 = Some i2" "smp_output s2 = Some o2"
    "map_of ex i2 = Some e2" "o2 \<in> set (ca_outputs e2)" unfolding extractedFrom_def by blast
  have m1: "(i1, ca_outputs e1) \<in> set (map signature ex)"
    using map_of_SomeD[OF s1(3)] by (force simp: signature_def)
  have m2: "(i2, ca_outputs e2) \<in> set (map signature ex)"
    using map_of_SomeD[OF s2(3)] by (force simp: signature_def)
  from assms(3) consider "i1 \<noteq> i2" "o1 = o2" | "i1 = o2" "i1 \<noteq> i2" | "i1 = o2" "i1 = i2"
    unfolding conflicting_def using s1 s2 by auto
  then show ?thesis
  proof cases
    case 1
    show ?thesis
      by (rule replacedIds_shared[OF m1 m2, where x = o1]) (use 1 s1 s2 in auto)
  next
    case 2
    show ?thesis
      by (rule replacedIds_shared[OF m1 m2, where x = i1]) (use 2 s1 s2 in auto)
  next
    case 3
    then have "e1 = e2" using s1(3) s2(3) by simp
    show ?thesis
      by (rule replacedIds_own[OF m1]) (use 3 s2 \<open>e1 = e2\<close> in auto)
  qed
qed

text \<open>
  Claim C8. When two samplers of the asset have different inputs and the same output, or
  the accessor that is the input of one is the output of another (or of itself), the
  animation compress pass ends in an error, whatever the codec and the helpers do:
  either an earlier step throws, or \<open>removeAllSamplerAccessorData\<close> meets an accessor it
  has already replaced and throws.
\<close>

theorem animation_conflict_fails:
  assumes "s1 \<in> set (allSamplers g)" "s2 \<in> set (allSamplers g)" "conflicting s1 s2"
  shows "isThrew (compressDracoAnimations env g opts)"
proof (cases "extractSamplers (allSamplers g) ([], 0)")
  case (Inl e)
  then show ?thesis by (simp add: compressDracoAnimations_def Let_def)
next
  case (Inr ex)
  from extractSamplers_Inr[OF Inr] assms(1,2) have x: "extractedFrom s1 (fst ex)"
    "extractedFrom s2 (fst ex)" and n: "snd ex = length (allSamplers g)" by auto
  from assms(1) have pos: "snd ex \<noteq> 0" unfolding n by auto
  let ?tq = "defaultValue (quantizeTimestamps (defaultValue opts
                \<lparr> quantizeTimestamps = None, quantizeKeyframes = None \<rparr>)) (Fin 16)"
  let ?kq = "defaultValue (quantizeKeyframes (defaultValue opts
                \<lparr> quantizeTimestamps = None, quantizeKeyframes = None \<rparr>)) (Fin 16)"
  let ?enc = "encodeAnimations env ?tq ?kq (fst ex)
                (addExtensionsRequired env g ''Draco_animation_compression'', [])"
  show ?thesis
  proof (cases ?enc)
    case (Threw e st)
    then show ?thesis using Inr pos by (simp add: compressDracoAnimations_def Let_def)
  next
    case (Returned st)
    from encodeAnimations_signature[OF Returned]
    have sig: "map signature (snd st) = map signature (fst ex)" by simp
    let ?rm = "removeAllSamplerAccessorData (snd st) (fst st, Map.empty, [])"
    have "isThrew ?rm"
    proof (cases ?rm)
      case (Threw e st')
      then show ?thesis by simp
    next
      case (Returned st')
      from removeAllSamplerAccessorData_Returned[OF Returned]
      have "distinct (replacedIds (map signature (fst ex)))" by (simp add: sig)
      with conflicting_not_distinct[OF x assms(3)] show ?thesis by simp
    qed
    then obtain e st' where "?rm = Threw e st'" by (cases ?rm) auto
    then show ?thesis using Inr pos Returned by (simp add: compressDracoAnimations_def Let_def)
  qed
qed

theorem animation_conflict_fails_witness:
  "linearSampler 0 2 \<in> set (allSamplers (animatedAsset [linearSampler 0 2, linearSampler 1 2]))
   \<and> linearSampler 1 2 \<in> set (allSamplers (animatedAsset [linearSampler 0 2, linearSampler 1 2]))
   \<and> conflicting (linearSampler 0 2) (linearSampler 1 2)
   \<and> isThrew (compressDracoAnimations exampleAnimationEnv
                 (animatedAsset [linearSampler 0 2, linearSampler 1 2]) None)
   \<and> errorOf (compressDracoAnimations exampleAnimationEnv
                 (animatedAsset [linearSampler 0 2, linearSampler 1 2]) None)
       = Some (RuntimeError ''Error: Duplicated output in animation extension.'')
   \<and> errorOf (compressDracoAnimations exampleAnimationEnv
                 (animatedAsset [linearSampler 0 2, linearSampler 1 3]) None) = None"
proof -
  let ?g = "animatedAsset [linearSampler 0 2, linearSampler 1 2]"
  have m: "linearSampler 0 2 \<in> set (allSamplers ?g)" "linearSampler 1 2 \<in> set (allSamplers ?g)"
    by (simp_all add: allSamplers_def animatedAsset_def)
  have c: "conflicting (linearSampler 0 2) (linearSampler 1 2)"
    by (simp add: conflicting_def linearSampler_def)
  have e: "errorOf (compressDracoAnimations exampleAnimationEnv ?g None)
       = Some (RuntimeError ''Error: Duplicated output in animation extension.'')"
    by code_simp
  have r: "errorOf (compressDracoAnimations exampleAnimationEnv
                 (animatedAsset [linearSampler 0 2, linearSampler 1 3]) None) = None"
    by code_simp
  from animation_conflict_fails [OF m c, of exampleAnimationEnv None] m c e r show ?thesis by simp
qed


end
